theory Spec2Isabelle
  imports Main "HOL-Library.Monad_Syntax"
begin

section \<open>Values of the request body\<close>

text \<open>
  The backend (\<^verbatim>\<open>backend_app.py\<close>) receives a request body that Flask has decoded with
  \<^verbatim>\<open>json.loads\<close>. The decoded Python value is modelled by \<open>json\<close>: \<open>JNull\<close> is
  \<^verbatim>\<open>None\<close>, \<open>JInt\<close> an unbounded Python \<^verbatim>\<open>int\<close>, \<open>JString\<close> a \<^verbatim>\<open>str\<close>, \<open>JArray\<close> a \<^verbatim>\<open>list\<close> and
  \<open>JObject\<close> a \<^verbatim>\<open>dict\<close> in insertion order (an association list; a key is looked up with
  \<open>map_of\<close>). Strings are \<open>char list\<close>, so a character is a code point below 256.
  Floating-point numbers are not part of the model.
\<close>

datatype json =
    JNull
  | JBool bool
  | JInt int
  | JString string
  | JArray "json list"
  | JObject "(string \<times> json) list"

datatype exn = AttributeError | KeyError | ValueError string | OSError | UnicodeEncodeError

definition bind_exn :: "exn + 'a \<Rightarrow> ('a \<Rightarrow> exn + 'b) \<Rightarrow> exn + 'b" where
  "bind_exn m f = (case m of Inl e \<Rightarrow> Inl e | Inr x \<Rightarrow> f x)"

text \<open>\<^verbatim>\<open>d.get(key, default)\<close> on a \<^verbatim>\<open>dict\<close> with the entries \<open>kvs\<close>.\<close>

definition lookup :: "(string \<times> json) list \<Rightarrow> string \<Rightarrow> json \<Rightarrow> json" where
  "lookup kvs key dflt = (case map_of kvs key of None \<Rightarrow> dflt | Some v \<Rightarrow> v)"

text \<open>
  \<^verbatim>\<open>data.get(key, default)\<close> on a decoded body: only a \<^verbatim>\<open>dict\<close> has the method; on \<^verbatim>\<open>None\<close>, a
  number, a string or a list the attribute lookup raises \<^verbatim>\<open>AttributeError\<close>.
\<close>

definition dict_get :: "json \<Rightarrow> string \<Rightarrow> json \<Rightarrow> exn + json" where
  "dict_get data key dflt =
     (case data of
        JObject kvs \<Rightarrow> Inr (lookup kvs key dflt)
      | _ \<Rightarrow> Inl AttributeError)"

text \<open>Python truth value: \<^verbatim>\<open>not v\<close> holds for exactly these values.\<close>

definition falsy :: "json \<Rightarrow> bool" where
  "falsy v =
     (v = JNull \<or> v = JBool False \<or> v = JInt 0 \<or> v = JString [] \<or> v = JArray []
      \<or> v = JObject [])"

section \<open>\<^verbatim>\<open>json.dumps\<close>\<close>

definition digit_char :: "nat \<Rightarrow> char" where
  "digit_char n = ''0123456789abcdef'' ! n"

fun dec :: "nat \<Rightarrow> string" where
  "dec n = (if n < 10 then [digit_char n] else dec (n div 10) @ [digit_char (n mod 10)])"

declare dec.simps [simp del]

definition str_int :: "int \<Rightarrow> string" where
  "str_int i = (if i < 0 then CHR ''-'' # dec (nat (- i)) else dec (nat i))"

text \<open>
  \<^verbatim>\<open>json.dumps\<close> runs with its defaults: \<^verbatim>\<open>ensure_ascii=True\<close>, separators \<^verbatim>\<open>', '\<close> and
  \<^verbatim>\<open>': '\<close>. In a string every character outside the printable ASCII range
  \<^verbatim>\<open>' '..'~'\<close>, the quote and the backslash are escaped.
\<close>

definition escape_char :: "char \<Rightarrow> string" where
  "escape_char c =
     (if c = CHR 0x22 then [CHR 0x5C, CHR 0x22]
      else if c = CHR 0x5C then [CHR 0x5C, CHR 0x5C]
      else if c = CHR 0x0A then [CHR 0x5C, CHR ''n'']
      else if c = CHR 0x0D then [CHR 0x5C, CHR ''r'']
      else if c = CHR 0x09 then [CHR 0x5C, CHR ''t'']
      else if c = CHR 0x08 then [CHR 0x5C, CHR ''b'']
      else if c = CHR 0x0C then [CHR 0x5C, CHR ''f'']
      else if 32 \<le> (of_char c :: nat) \<and> (of_char c :: nat) \<le> 126 then [c]
      else [CHR 0x5C, CHR ''u'', CHR ''0'', CHR ''0'',
            digit_char ((of_char c :: nat) div 16), digit_char ((of_char c :: nat) mod 16)])"

definition encode_basestring_ascii :: "string \<Rightarrow> string" where
  "encode_basestring_ascii s = CHR 0x22 # concat (map escape_char s) @ [CHR 0x22]"

fun json_dumps :: "json \<Rightarrow> string"
  and dumps_items :: "json list \<Rightarrow> string"
  and dumps_members :: "(string \<times> json) list \<Rightarrow> string"
where
  "json_dumps JNull = ''null''"
| "json_dumps (JBool b) = (if b then ''true'' else ''false'')"
| "json_dumps (JInt i) = str_int i"
| "json_dumps (JString s) = encode_basestring_ascii s"
| "json_dumps (JArray vs) = ''['' @ dumps_items vs @ '']''"
| "json_dumps (JObject kvs) = ''{'' @ dumps_members kvs @ ''}''"
| "dumps_items [] = []"
| "dumps_items [v] = json_dumps v"
| "dumps_items (v # w # vs) = json_dumps v @ '', '' @ dumps_items (w # vs)"
| "dumps_members [] = []"
| "dumps_members [(k, v)] = encode_basestring_ascii k @ '': '' @ json_dumps v"
| "dumps_members ((k, v) # kv # kvs) =
     encode_basestring_ascii k @ '': '' @ json_dumps v @ '', '' @ dumps_members (kv # kvs)"

section \<open>The clock\<close>

text \<open>
  \<^verbatim>\<open>datetime.datetime.now()\<close> is an input of the model: a naive \<^verbatim>\<open>datetime\<close> object, which
  Python keeps within the ranges of \<open>valid_datetime\<close>. \<^verbatim>\<open>isoformat()\<close> prints
  \<^verbatim>\<open>YYYY-MM-DDTHH:MM:SS\<close>, followed by \<^verbatim>\<open>.ffffff\<close> when the microsecond is not zero.
\<close>

record datetime =
  year :: nat
  month :: nat
  day :: nat
  hour :: nat
  minute :: nat
  second :: nat
  microsecond :: nat

definition is_leap :: "nat \<Rightarrow> bool" where
  "is_leap y = (y mod 4 = 0 \<and> (y mod 100 \<noteq> 0 \<or> y mod 400 = 0))"

definition days_in_month :: "nat \<Rightarrow> nat \<Rightarrow> nat" where
  "days_in_month y m =
     (if m = 2 then (if is_leap y then 29 else 28)
      else if m = 4 \<or> m = 6 \<or> m = 9 \<or> m = 11 then 30
      else 31)"

definition valid_datetime :: "datetime \<Rightarrow> bool" where
  "valid_datetime d =
     (1 \<le> year d \<and> year d \<le> 9999 \<and> 1 \<le> month d \<and> month d \<le> 12
      \<and> 1 \<le> day d \<and> day d \<le> days_in_month (year d) (month d)
      \<and> hour d < 24 \<and> minute d < 60 \<and> second d < 60 \<and> microsecond d < 1000000)"

text \<open>The \<^verbatim>\<open>%0wd\<close> conversion of a non-negative number.\<close>

definition zero_pad :: "nat \<Rightarrow> nat \<Rightarrow> string" where
  "zero_pad w n = replicate (w - length (dec n)) (CHR ''0'') @ dec n"

definition isoformat :: "datetime \<Rightarrow> string" where
  "isoformat d =
     zero_pad 4 (year d) @ ''-'' @ zero_pad 2 (month d) @ ''-'' @ zero_pad 2 (day d) @ ''T''
     @ zero_pad 2 (hour d) @ '':'' @ zero_pad 2 (minute d) @ '':'' @ zero_pad 2 (second d)
     @ (if microsecond d = 0 then [] else ''.'' @ zero_pad 6 (microsecond d))"

text \<open>
  "Parses as a timestamp" is stated with \<open>fromisoformat\<close>, a reader of the two shapes
  that \<open>isoformat\<close> prints; it accepts a text only when the fields form a valid date and
  time.
\<close>

definition is_digit :: "char \<Rightarrow> bool" where
  "is_digit c = (48 \<le> (of_char c :: nat) \<and> (of_char c :: nat) \<le> 57)"

definition digit_val :: "char \<Rightarrow> nat" where
  "digit_val c = of_char c - 48"

definition parse_nat :: "string \<Rightarrow> nat" where
  "parse_nat ds = foldl (\<lambda>a c. 10 * a + digit_val c) 0 ds"

definition take_digits :: "nat \<Rightarrow> string \<Rightarrow> (nat \<times> string) option" where
  "take_digits w s =
     (if w \<le> length s \<and> list_all is_digit (take w s)
      then Some (parse_nat (take w s), drop w s) else None)"

definition expect :: "char \<Rightarrow> string \<Rightarrow> string option" where
  "expect c s = (case s of [] \<Rightarrow> None | x # r \<Rightarrow> if x = c then Some r else None)"

definition fromisoformat :: "string \<Rightarrow> datetime option" where
  "fromisoformat s =
     do {
       (y, s1) \<leftarrow> take_digits 4 s;
       s2 \<leftarrow> expect (CHR ''-'') s1;
       (mo, s3) \<leftarrow> take_digits 2 s2;
       s4 \<leftarrow> expect (CHR ''-'') s3;
       (dd, s5) \<leftarrow> take_digits 2 s4;
       s6 \<leftarrow> expect (CHR ''T'') s5;
       (hh, s7) \<leftarrow> take_digits 2 s6;
       s8 \<leftarrow> expect (CHR '':'') s7;
       (mi, s9) \<leftarrow> take_digits 2 s8;
       s10 \<leftarrow> expect (CHR '':'') s9;
       (ss, s11) \<leftarrow> take_digits 2 s10;
       us \<leftarrow> (if s11 = [] then Some 0
              else do {
                s12 \<leftarrow> expect (CHR ''.'') s11;
                (f, s13) \<leftarrow> take_digits 6 s12;
                if s13 = [] then Some f else None
              });
       let d = \<lparr>year = y, month = mo, day = dd, hour = hh, minute = mi, second = ss,
                microsecond = us\<rparr>;
       if valid_datetime d then Some d else None
     }"

section \<open>Configuration\<close>

text \<open>
  \<open>username\<close> is the value of \<^verbatim>\<open>os.environ.get('USER', ...)\<close> at start-up. \<open>path_join\<close>
  and \<open>dirname\<close> are \<^verbatim>\<open>posixpath.join\<close> (two arguments) and \<^verbatim>\<open>posixpath.dirname\<close>.
\<close>

definition path_join :: "string \<Rightarrow> string \<Rightarrow> string" where
  "path_join a b =
     (if b \<noteq> [] \<and> hd b = CHR ''/'' then b
      else if a = [] \<or> last a = CHR ''/'' then a @ b
      else a @ ''/'' @ b)"

definition dirname :: "string \<Rightarrow> string" where
  "dirname p =
     (let head = rev (dropWhile (\<lambda>c. c \<noteq> CHR ''/'') (rev p)) in
      if head \<noteq> [] \<and> \<not> list_all (\<lambda>c. c = CHR ''/'') head
      then rev (dropWhile (\<lambda>c. c = CHR ''/'') (rev head))
      else head)"

definition DATA_DIR :: "string \<Rightarrow> string" where
  "DATA_DIR username = ''/home/'' @ username @ ''/calculator_data''"

definition EVAL_DATA_FILE :: "string \<Rightarrow> string" where
  "EVAL_DATA_FILE username = path_join (DATA_DIR username) ''calculator_data.csv''"

definition EVAL_CSV_HEADER :: "string list" where
  "EVAL_CSV_HEADER =
     [''researchId'', ''timestamp'', ''age'', ''sex'', ''renalInputMethod'',
      ''serumCreatinine'', ''eGFR'', ''renalStatus'', ''fallsHistory'',
      ''knownMedicationsJson'', ''otherMedicationsJson'', ''totalACB'',
      ''beersAlertsCount'', ''stoppAlertsCount'']"

definition SUGGESTIONS_FILE :: "string \<Rightarrow> string" where
  "SUGGESTIONS_FILE username = path_join (DATA_DIR username) ''suggestions.csv''"

definition SUGGESTIONS_HEADER :: "string list" where
  "SUGGESTIONS_HEADER = [''timestamp'', ''medicationName'', ''details'', ''email'']"

section \<open>The file system\<close>

text \<open>
  A CSV file is the list of the rows handed to the \<^verbatim>\<open>csv\<close> writer, a row the list of its
  cell values; the writer prints \<^verbatim>\<open>None\<close> (\<open>JNull\<close>) as the empty field, a string as it is
  and any other value through \<^verbatim>\<open>str\<close>. Quoting and the text of a cell are the \<^verbatim>\<open>csv\<close>
  module's and are not modelled. \<open>dirs\<close> holds the directories that exist.

  Whether the operating system refuses an operation is an input: \<open>makedirs_fails\<close> and
  \<open>create_fails\<close> say for which paths \<^verbatim>\<open>os.makedirs\<close> and \<^verbatim>\<open>open(path, 'w')\<close> raise
  \<^verbatim>\<open>OSError\<close>, \<open>append_fails\<close> for which paths the append of a row raises, and how.
  \<open>OpenFault e\<close>: \<^verbatim>\<open>open(path, 'a')\<close> raises \<open>e\<close> and the file is as it was.
  \<open>WriteFault e left\<close>: the file is opened, and writing the row or closing the file raises
  \<open>e\<close>; by then a part of the line may be in the file, and \<open>left\<close> is what a reader of
  the file finds after the rows that were there: nothing, or a torn row.

  The standard output belongs to the environment as well. \<^verbatim>\<open>print\<close> raises
  \<^verbatim>\<open>UnicodeEncodeError\<close> when the text has a character that the encoding of the standard
  output lacks (a research id with an accented letter on an ASCII output), and \<^verbatim>\<open>OSError\<close>
  when the output cannot be written. \<open>print_fails\<close> says for which values of the request
  \<^verbatim>\<open>print\<close> raises when the value is formatted into a printed line, and what. It is
  consulted for the \<^verbatim>\<open>print\<close> calls inside the second \<^verbatim>\<open>try\<close> block of an endpoint, whose
  exceptions the handlers of the block turn into an answer. The other \<^verbatim>\<open>print\<close> calls
  (in \<^verbatim>\<open>initialize_csv\<close>, before the first \<^verbatim>\<open>try\<close> block and inside the handlers) write
  fixed messages, the configured paths, the messages of exceptions and the ASCII text of
  \<^verbatim>\<open>json.dumps\<close>; the model takes the standard output to accept those and leaves these
  calls out.
\<close>

datatype fault = OpenFault exn | WriteFault exn "json list list"

record filesystem =
  dirs :: "string set"
  files :: "string \<Rightarrow> json list list option"
  makedirs_fails :: "string \<Rightarrow> bool"
  create_fails :: "string \<Rightarrow> bool"
  append_fails :: "string \<Rightarrow> fault option"
  print_fails :: "json \<Rightarrow> exn option"

definition path_exists :: "filesystem \<Rightarrow> string \<Rightarrow> bool" where
  "path_exists fs p = (files fs p \<noteq> None \<or> p \<in> dirs fs)"

text \<open>\<^verbatim>\<open>os.makedirs(dir_name, exist_ok=True)\<close>; the model records the directory asked for.\<close>

definition makedirs :: "string \<Rightarrow> filesystem \<Rightarrow> exn + filesystem" where
  "makedirs d fs =
     (if makedirs_fails fs d then Inl OSError
      else Inr (fs\<lparr>dirs := insert d (dirs fs)\<rparr>))"

text \<open>\<^verbatim>\<open>with open(file_path, 'w', ...) as f: csv.writer(f).writerow(header)\<close>\<close>

definition open_w_writerow :: "string \<Rightarrow> string list \<Rightarrow> filesystem \<Rightarrow> exn + filesystem" where
  "open_w_writerow file_path header fs =
     (if create_fails fs file_path then Inl OSError
      else Inr (fs\<lparr>files := (files fs)(file_path \<mapsto> [map JString header])\<rparr>))"

text \<open>
  \<^verbatim>\<open>csv.DictWriter.writerow\<close> turns the dictionary into a list: a key outside \<open>fieldnames\<close>
  raises \<^verbatim>\<open>ValueError\<close>, a field name without an entry is written as \<^verbatim>\<open>restval\<close>, the empty
  string.
\<close>

definition dict_to_list :: "string list \<Rightarrow> (string \<times> json) list \<Rightarrow> exn + json list" where
  "dict_to_list fieldnames rowdict =
     (if \<not> list_all (\<lambda>k. k \<in> set fieldnames) (map fst rowdict)
      then Inl (ValueError ''dict contains fields not in fieldnames'')
      else Inr (map (\<lambda>key. lookup rowdict key (JString [])) fieldnames))"

text \<open>
  \<^verbatim>\<open>with open(path, 'a', ...) as f: csv.DictWriter(f, fieldnames=...).writerow(final_row)\<close>.
  Opening a directory raises \<^verbatim>\<open>IsADirectoryError\<close>, an \<^verbatim>\<open>OSError\<close>; append mode creates a
  file that is not there. The result is the exception that leaves the \<^verbatim>\<open>with\<close> statement,
  if any, and the file system as it is then: an exception does not undo what has reached
  the file.
\<close>

definition open_a_writerow ::
  "string \<Rightarrow> string list \<Rightarrow> (string \<times> json) list \<Rightarrow> filesystem
     \<Rightarrow> exn option \<times> filesystem" where
  "open_a_writerow path fieldnames final_row fs =
     (let opened = (case files fs path of None \<Rightarrow> [] | Some rows \<Rightarrow> rows) in
      if files fs path = None \<and> path \<in> dirs fs then (Some OSError, fs)
      else case append_fails fs path of
        Some (OpenFault e) \<Rightarrow> (Some e, fs)
      | Some (WriteFault e left) \<Rightarrow>
          (case dict_to_list fieldnames final_row of
             Inl ve \<Rightarrow> (Some ve, fs\<lparr>files := (files fs)(path \<mapsto> opened)\<rparr>)
           | Inr row \<Rightarrow> (Some e, fs\<lparr>files := (files fs)(path \<mapsto> opened @ left)\<rparr>))
      | None \<Rightarrow>
          (case dict_to_list fieldnames final_row of
             Inl ve \<Rightarrow> (Some ve, fs\<lparr>files := (files fs)(path \<mapsto> opened)\<rparr>)
           | Inr row \<Rightarrow> (None, fs\<lparr>files := (files fs)(path \<mapsto> opened @ [row])\<rparr>)))"

text \<open>
  \<^verbatim>\<open>print(f"... {final_row[key]}")\<close>, the line that reports a saved row: indexing a
  dictionary with a key it lacks raises \<^verbatim>\<open>KeyError\<close>, and printing the value may raise.
\<close>

definition dict_index :: "(string \<times> json) list \<Rightarrow> string \<Rightarrow> exn + json" where
  "dict_index kvs key = (case map_of kvs key of None \<Rightarrow> Inl KeyError | Some v \<Rightarrow> Inr v)"

definition print_saved :: "filesystem \<Rightarrow> (string \<times> json) list \<Rightarrow> string \<Rightarrow> exn option" where
  "print_saved fs final_row key =
     (case dict_index final_row key of
        Inl e \<Rightarrow> Some e
      | Inr v \<Rightarrow> print_fails fs v)"

section \<open>\<^verbatim>\<open>initialize_csv\<close>\<close>

text \<open>
  The \<^verbatim>\<open>try\<close> block creates the directory, then the file with its header when nothing exists
  at the path. An \<^verbatim>\<open>OSError\<close> is printed and swallowed: what was done before it stays.
\<close>

definition initialize_csv :: "string \<Rightarrow> string list \<Rightarrow> filesystem \<Rightarrow> filesystem" where
  "initialize_csv file_path header fs =
     (let dir_name = dirname file_path in
      case (if dir_name \<noteq> [] then makedirs dir_name fs else Inr fs) of
        Inl e \<Rightarrow> fs
      | Inr fs1 \<Rightarrow>
          if \<not> path_exists fs1 file_path then
            (case open_w_writerow file_path header fs1 of
               Inl e \<Rightarrow> fs1
             | Inr fs2 \<Rightarrow> fs2)
          else fs1)"

section \<open>The endpoints\<close>

text \<open>
  A request is what Flask makes of it: \<open>NotJson\<close> when \<^verbatim>\<open>request.is_json\<close> is false,
  \<open>BadJson\<close> when the content type is JSON and \<^verbatim>\<open>get_json()\<close> cannot decode the body (Flask
  aborts the request with status 400), \<open>Json v\<close> when \<^verbatim>\<open>get_json()\<close> returns \<open>v\<close>.
  A response is the body and the status code.

  The second \<^verbatim>\<open>try\<close> block of an endpoint checks that something exists at the store's
  path (and prints the path when nothing does), appends the row and prints the line that
  reports it, with the research id or the medication name of the row. An exception raised
  by the append or by a \<^verbatim>\<open>print\<close> of the block reaches its handlers:
  \<^verbatim>\<open>except IOError\<close> (\<open>OSError\<close>) answers with the endpoint's file-error reason,
  \<^verbatim>\<open>except Exception\<close> with \<^verbatim>\<open>An internal server error occurred\<close>. Both answer 500, also when
  the row is in the file already.
\<close>

datatype request = NotJson | BadJson | Json json

datatype body = ErrorBody string | MessageBody string | AbortBody

type_synonym response = "body \<times> nat"

definition write_handlers :: "string \<Rightarrow> exn \<Rightarrow> response" where
  "write_handlers file_error e =
     (case e of
        OSError \<Rightarrow> (ErrorBody file_error, 500)
      | _ \<Rightarrow> (ErrorBody ''An internal server error occurred'', 500))"

text \<open>\<^verbatim>\<open>{key: row_data.get(key) for key in header}\<close>\<close>

definition final_row_of :: "string list \<Rightarrow> (string \<times> json) list \<Rightarrow> (string \<times> json) list" where
  "final_row_of header row_data =
     map (\<lambda>key. (key, lookup row_data key JNull)) header"

text \<open>
  The first \<^verbatim>\<open>try\<close> block of \<^verbatim>\<open>save_data\<close>. \<open>now1\<close> and \<open>now2\<close> are the two readings of the
  clock, in the order of the calls.
\<close>

definition eval_final_row :: "datetime \<Rightarrow> datetime \<Rightarrow> json \<Rightarrow> exn + (string \<times> json) list" where
  "eval_final_row now1 now2 data =
     bind_exn (dict_get data ''researchId'' (JString (''MISSING_ID_'' @ isoformat now1)))
       (\<lambda>researchId.
     bind_exn (dict_get data ''timestamp'' (JString (isoformat now2))) (\<lambda>timestamp.
     bind_exn (dict_get data ''age'' JNull) (\<lambda>age.
     bind_exn (dict_get data ''sex'' JNull) (\<lambda>sex.
     bind_exn (dict_get data ''renalInputMethod'' JNull) (\<lambda>renalInputMethod.
     bind_exn (dict_get data ''serumCreatinine'' JNull) (\<lambda>serumCreatinine.
     bind_exn (dict_get data ''eGFR'' JNull) (\<lambda>eGFR.
     bind_exn (dict_get data ''renalStatus'' JNull) (\<lambda>renalStatus.
     bind_exn (dict_get data ''fallsHistory'' JNull) (\<lambda>fallsHistory.
     bind_exn (dict_get data ''knownMedications'' (JArray [])) (\<lambda>knownMedications.
     bind_exn (dict_get data ''otherMedications'' (JArray [])) (\<lambda>otherMedications.
     bind_exn (bind_exn (dict_get data ''results'' (JObject []))
                 (\<lambda>results. dict_get results ''totalACB'' JNull)) (\<lambda>totalACB.
     bind_exn (bind_exn (dict_get data ''results'' (JObject []))
                 (\<lambda>results. dict_get results ''beersAlerts'' JNull)) (\<lambda>beersAlerts.
     bind_exn (bind_exn (dict_get data ''results'' (JObject []))
                 (\<lambda>results. dict_get results ''stoppAlerts'' JNull)) (\<lambda>stoppAlerts.
     Inr (final_row_of EVAL_CSV_HEADER
       [(''researchId'', researchId),
        (''timestamp'', timestamp),
        (''age'', age),
        (''sex'', sex),
        (''renalInputMethod'', renalInputMethod),
        (''serumCreatinine'', serumCreatinine),
        (''eGFR'', eGFR),
        (''renalStatus'', renalStatus),
        (''fallsHistory'', fallsHistory),
        (''knownMedicationsJson'', JString (json_dumps knownMedications)),
        (''otherMedicationsJson'', JString (json_dumps otherMedications)),
        (''totalACB'', totalACB),
        (''beersAlertsCount'', beersAlerts),
        (''stoppAlertsCount'', stoppAlerts)])))))))))))))))"

definition save_data ::
  "string \<Rightarrow> datetime \<Rightarrow> datetime \<Rightarrow> request \<Rightarrow> filesystem \<Rightarrow> response \<times> filesystem" where
  "save_data username now1 now2 req fs0 =
     (let fs = initialize_csv (EVAL_DATA_FILE username) EVAL_CSV_HEADER fs0 in
      case req of
        NotJson \<Rightarrow> ((ErrorBody ''Request must be JSON'', 400), fs)
      | BadJson \<Rightarrow> ((AbortBody, 400), fs)
      | Json data \<Rightarrow>
          (case eval_final_row now1 now2 data of
             Inl e \<Rightarrow> ((ErrorBody ''Invalid data format'', 400), fs)
           | Inr final_row \<Rightarrow>
               if \<not> path_exists fs (EVAL_DATA_FILE username)
               then
                 (case print_fails fs (JString (EVAL_DATA_FILE username)) of
                    None \<Rightarrow> ((ErrorBody ''Could not access data storage'', 500), fs)
                  | Some e \<Rightarrow>
                      (write_handlers ''Could not save evaluation data due to file error'' e, fs))
               else
                 (case open_a_writerow (EVAL_DATA_FILE username) EVAL_CSV_HEADER final_row fs of
                    (Some e, fs1) \<Rightarrow>
                      (write_handlers ''Could not save evaluation data due to file error'' e, fs1)
                  | (None, fs1) \<Rightarrow>
                      (case print_saved fs1 final_row ''researchId'' of
                         None \<Rightarrow>
                           ((MessageBody ''Evaluation data saved successfully'', 200), fs1)
                       | Some e \<Rightarrow>
                           (write_handlers ''Could not save evaluation data due to file error'' e,
                            fs1)))))"

text \<open>The first \<^verbatim>\<open>try\<close> block of \<^verbatim>\<open>save_suggestion\<close>.\<close>

definition suggestion_final_row :: "datetime \<Rightarrow> json \<Rightarrow> exn + (string \<times> json) list" where
  "suggestion_final_row now data =
     bind_exn (dict_get data ''medicationName'' JNull) (\<lambda>med_name.
     bind_exn (dict_get data ''details'' JNull) (\<lambda>details.
     if falsy med_name \<or> falsy details
     then Inl (ValueError ''Missing required suggestion fields (medicationName or details)'')
     else
       bind_exn (dict_get data ''timestamp'' (JString (isoformat now))) (\<lambda>timestamp.
       bind_exn (dict_get data ''email'' JNull) (\<lambda>email.
       Inr (final_row_of SUGGESTIONS_HEADER
         [(''timestamp'', timestamp),
          (''medicationName'', med_name),
          (''details'', details),
          (''email'', email)])))))"

definition save_suggestion ::
  "string \<Rightarrow> datetime \<Rightarrow> request \<Rightarrow> filesystem \<Rightarrow> response \<times> filesystem" where
  "save_suggestion username now req fs0 =
     (let fs = initialize_csv (SUGGESTIONS_FILE username) SUGGESTIONS_HEADER fs0 in
      case req of
        NotJson \<Rightarrow> ((ErrorBody ''Request must be JSON'', 400), fs)
      | BadJson \<Rightarrow> ((AbortBody, 400), fs)
      | Json data \<Rightarrow>
          (case suggestion_final_row now data of
             Inl (ValueError ve) \<Rightarrow> ((ErrorBody ve, 400), fs)
           | Inl e \<Rightarrow> ((ErrorBody ''Invalid suggestion data format'', 400), fs)
           | Inr final_row \<Rightarrow>
               if \<not> path_exists fs (SUGGESTIONS_FILE username)
               then
                 (case print_fails fs (JString (SUGGESTIONS_FILE username)) of
                    None \<Rightarrow> ((ErrorBody ''Could not access suggestion storage'', 500), fs)
                  | Some e \<Rightarrow>
                      (write_handlers ''Could not save suggestion due to file error'' e, fs))
               else
                 (case open_a_writerow (SUGGESTIONS_FILE username) SUGGESTIONS_HEADER final_row fs of
                    (Some e, fs1) \<Rightarrow>
                      (write_handlers ''Could not save suggestion due to file error'' e, fs1)
                  | (None, fs1) \<Rightarrow>
                      (case print_saved fs1 final_row ''medicationName'' of
                         None \<Rightarrow> ((MessageBody ''Suggestion saved successfully'', 200), fs1)
                       | Some e \<Rightarrow>
                           (write_handlers ''Could not save suggestion due to file error'' e,
                            fs1)))))"

section \<open>Sequences of submissions\<close>

text \<open>
  The server handles one request after the other; each starts on the file system the
  previous one left. A submission carries the readings of the clock made while it is
  handled.
\<close>

fun run_save_data ::
  "string \<Rightarrow> (datetime \<times> datetime \<times> request) list \<Rightarrow> filesystem \<Rightarrow> response list \<times> filesystem"
where
  "run_save_data username [] fs = ([], fs)"
| "run_save_data username ((now1, now2, req) # subs) fs =
     (let (resp, fs1) = save_data username now1 now2 req fs;
          (resps, fs2) = run_save_data username subs fs1
      in (resp # resps, fs2))"

fun run_save_suggestion ::
  "string \<Rightarrow> (datetime \<times> request) list \<Rightarrow> filesystem \<Rightarrow> response list \<times> filesystem"
where
  "run_save_suggestion username [] fs = ([], fs)"
| "run_save_suggestion username ((now, req) # subs) fs =
     (let (resp, fs1) = save_suggestion username now req fs;
          (resps, fs2) = run_save_suggestion username subs fs1
      in (resp # resps, fs2))"

text \<open>The row that the \<^verbatim>\<open>csv\<close> writer receives for a decoded body.\<close>

definition eval_csv_row :: "datetime \<Rightarrow> datetime \<Rightarrow> json \<Rightarrow> exn + json list" where
  "eval_csv_row now1 now2 data =
     bind_exn (eval_final_row now1 now2 data) (dict_to_list EVAL_CSV_HEADER)"

definition suggestion_csv_row :: "datetime \<Rightarrow> json \<Rightarrow> exn + json list" where
  "suggestion_csv_row now data =
     bind_exn (suggestion_final_row now data) (dict_to_list SUGGESTIONS_HEADER)"

text \<open>
  The cell of a row under a column name of the header, and the rows of a store file below
  its header row.
\<close>

definition csv_column :: "string list \<Rightarrow> json list \<Rightarrow> string \<Rightarrow> json option" where
  "csv_column header row name = map_of (zip header row) name"


section \<open>Notions used in the statements\<close>

text \<open>
  The cells that \<^verbatim>\<open>save_data\<close> and \<^verbatim>\<open>save_suggestion\<close> write for a \<^verbatim>\<open>dict\<close> body, column by
  column; \<open>rs\<close> are the entries of the \<^verbatim>\<open>results\<close> sub-object. The lemmas
  \<open>eval_csv_row_object\<close> and \<open>suggestion_csv_row_object\<close> prove that the code computes
  these lists.
\<close>

definition eval_cells ::
  "datetime \<Rightarrow> datetime \<Rightarrow> (string \<times> json) list \<Rightarrow> (string \<times> json) list \<Rightarrow> json list" where
  "eval_cells now1 now2 kvs rs =
     [lookup kvs ''researchId'' (JString (''MISSING_ID_'' @ isoformat now1)),
      lookup kvs ''timestamp'' (JString (isoformat now2)),
      lookup kvs ''age'' JNull,
      lookup kvs ''sex'' JNull,
      lookup kvs ''renalInputMethod'' JNull,
      lookup kvs ''serumCreatinine'' JNull,
      lookup kvs ''eGFR'' JNull,
      lookup kvs ''renalStatus'' JNull,
      lookup kvs ''fallsHistory'' JNull,
      JString (json_dumps (lookup kvs ''knownMedications'' (JArray []))),
      JString (json_dumps (lookup kvs ''otherMedications'' (JArray []))),
      lookup rs ''totalACB'' JNull,
      lookup rs ''beersAlerts'' JNull,
      lookup rs ''stoppAlerts'' JNull]"

definition suggestion_cells :: "datetime \<Rightarrow> (string \<times> json) list \<Rightarrow> json list" where
  "suggestion_cells now kvs =
     [lookup kvs ''timestamp'' (JString (isoformat now)),
      lookup kvs ''medicationName'' JNull,
      lookup kvs ''details'' JNull,
      lookup kvs ''email'' JNull]"

text \<open>
  What the second \<^verbatim>\<open>try\<close> block of an endpoint does with a row once something exists at
  the store's path: the exception that reaches the handlers, if any, and the file system
  then. \<open>logged\<close> is the value that the line reporting the saved row prints.
\<close>

definition append_outcome ::
  "string \<Rightarrow> json list \<Rightarrow> json \<Rightarrow> filesystem \<Rightarrow> exn option \<times> filesystem" where
  "append_outcome p row logged fs =
     (case files fs p of
        None \<Rightarrow> (Some OSError, fs)
      | Some rows \<Rightarrow>
          (case append_fails fs p of
             Some (OpenFault e) \<Rightarrow> (Some e, fs)
           | Some (WriteFault e left) \<Rightarrow> (Some e, fs\<lparr>files := (files fs)(p \<mapsto> rows @ left)\<rparr>)
           | None \<Rightarrow>
               (print_fails fs logged, fs\<lparr>files := (files fs)(p \<mapsto> rows @ [row])\<rparr>)))"

text \<open>The row that a submission puts into its store when it is accepted.\<close>

definition eval_row_of :: "datetime \<times> datetime \<times> request \<Rightarrow> json list \<Rightarrow> bool" where
  "eval_row_of sub row =
     (case sub of (now1, now2, req) \<Rightarrow>
        (case req of Json data \<Rightarrow> eval_csv_row now1 now2 data = Inr row | _ \<Rightarrow> False))"

definition suggestion_row_of :: "datetime \<times> request \<Rightarrow> json list \<Rightarrow> bool" where
  "suggestion_row_of sub row =
     (case sub of (now, req) \<Rightarrow>
        (case req of Json data \<Rightarrow> suggestion_csv_row now data = Inr row | _ \<Rightarrow> False))"



text \<open>
  The shape of a synthesized research id: the marker \<^verbatim>\<open>MISSING_ID_\<close> followed by a
  timestamp.
\<close>

definition is_sentinel :: "string \<Rightarrow> bool" where
  "is_sentinel s = (take 11 s = ''MISSING_ID_'' \<and> fromisoformat (drop 11 s) \<noteq> None)"

section \<open>Example inputs\<close>

text \<open>Two readings of the clock.\<close>

definition noon :: datetime where
  "noon = \<lparr>year = 2025, month = 3, day = 14, hour = 12, minute = 0, second = 0,
           microsecond = 0\<rparr>"

definition later :: datetime where
  "later = \<lparr>year = 2025, month = 3, day = 14, hour = 12, minute = 0, second = 7,
            microsecond = 250000\<rparr>"

text \<open>A file system with nothing in it, on which no operation is refused.\<close>

definition empty_fs :: filesystem where
  "empty_fs =
     \<lparr>dirs = {}, files = (\<lambda>p. None), makedirs_fails = (\<lambda>p. False),
      create_fails = (\<lambda>p. False), append_fails = (\<lambda>p. None), print_fails = (\<lambda>v. None)\<rparr>"

text \<open>
  The file system of a user whose two stores exist and hold their header rows; the same
  with a disk on which every write to an existing file fails; and the same with a data
  directory that \<^verbatim>\<open>os.makedirs\<close> may not touch.
\<close>

definition ready_fs :: "string \<Rightarrow> filesystem" where
  "ready_fs username =
     \<lparr>dirs = {DATA_DIR username},
      files = [EVAL_DATA_FILE username \<mapsto> [map JString EVAL_CSV_HEADER],
               SUGGESTIONS_FILE username \<mapsto> [map JString SUGGESTIONS_HEADER]],
      makedirs_fails = (\<lambda>p. False), create_fails = (\<lambda>p. False),
      append_fails = (\<lambda>p. None), print_fails = (\<lambda>v. None)\<rparr>"

definition full_disk_fs :: "string \<Rightarrow> filesystem" where
  "full_disk_fs username =
     (ready_fs username)\<lparr>append_fails := (\<lambda>p. Some (WriteFault OSError []))\<rparr>"

definition locked_dir_fs :: "string \<Rightarrow> filesystem" where
  "locked_dir_fs username = (ready_fs username)\<lparr>makedirs_fails := (\<lambda>p. True)\<rparr>"

text \<open>
  The same stores behind a standard output that encodes ASCII only (as far as the strings
  of a request go), and on a disk where a write is cut short after a part of the line has
  reached the file.
\<close>

definition ascii_only :: "json \<Rightarrow> exn option" where
  "ascii_only v =
     (case v of
        JString s \<Rightarrow>
          if list_all (\<lambda>c. (of_char c :: nat) < 128) s then None else Some UnicodeEncodeError
      | _ \<Rightarrow> None)"

definition ascii_stdout_fs :: "string \<Rightarrow> filesystem" where
  "ascii_stdout_fs username = (ready_fs username)\<lparr>print_fails := ascii_only\<rparr>"

definition torn_write_fs :: "string \<Rightarrow> filesystem" where
  "torn_write_fs username =
     (ready_fs username)\<lparr>append_fails := (\<lambda>p. Some (WriteFault OSError [[JString ''MISS'']]))\<rparr>"

text \<open>
  A file system with nothing in it, on which no directory can be made; and one where
  directories stand at the paths of the two stores.
\<close>

definition no_home_fs :: filesystem where
  "no_home_fs = empty_fs\<lparr>makedirs_fails := (\<lambda>p. True)\<rparr>"

definition dir_at_store_fs :: "string \<Rightarrow> filesystem" where
  "dir_at_store_fs username =
     empty_fs\<lparr>dirs := {DATA_DIR username, EVAL_DATA_FILE username, SUGGESTIONS_FILE username}\<rparr>"

text \<open>The payload of the specification's example, and two more.\<close>

definition aspirin :: json where
  "aspirin = JArray [JObject [(''name'', JString ''Aspirin''), (''dose'', JString ''75mg'')]]"

definition aspirin_payload :: json where
  "aspirin_payload = JObject [(''knownMedications'', aspirin)]"

definition suggestion_payload :: json where
  "suggestion_payload =
     JObject [(''medicationName'', JString ''Aspirin''), (''details'', JString ''add it'')]"



text \<open>Two evaluation submissions and one suggestion, in the order they arrive.\<close>

definition two_evaluations :: "(datetime \<times> datetime \<times> request) list" where
  "two_evaluations = [(noon, noon, Json (JObject [])), (later, later, Json aspirin_payload)]"

definition one_suggestion :: "(datetime \<times> request) list" where
  "one_suggestion = [(noon, Json suggestion_payload)]"

section \<open>Paths of the two stores\<close>

lemma EVAL_DATA_FILE_eq:
  "EVAL_DATA_FILE u = DATA_DIR u @ ''/calculator_data.csv''"
  by (simp add: EVAL_DATA_FILE_def path_join_def DATA_DIR_def)

lemma SUGGESTIONS_FILE_eq:
  "SUGGESTIONS_FILE u = DATA_DIR u @ ''/suggestions.csv''"
  by (simp add: SUGGESTIONS_FILE_def path_join_def DATA_DIR_def)

lemma dirname_in_DATA_DIR:
  assumes "CHR ''/'' \<notin> set name"
  shows "dirname (DATA_DIR u @ CHR ''/'' # name) = DATA_DIR u"
proof -
  have "dropWhile (\<lambda>c. c \<noteq> CHR ''/'') (rev name @ CHR ''/'' # rev (DATA_DIR u))
      = CHR ''/'' # rev (DATA_DIR u)"
    using assms by (subst dropWhile_append2) auto
  then show ?thesis
    by (simp add: dirname_def Let_def DATA_DIR_def)
qed

lemma dirname_EVAL_DATA_FILE [simp]: "dirname (EVAL_DATA_FILE u) = DATA_DIR u"
  using dirname_in_DATA_DIR [of "''calculator_data.csv''" u]
  by (simp add: EVAL_DATA_FILE_eq)

lemma dirname_SUGGESTIONS_FILE [simp]: "dirname (SUGGESTIONS_FILE u) = DATA_DIR u"
  using dirname_in_DATA_DIR [of "''suggestions.csv''" u]
  by (simp add: SUGGESTIONS_FILE_eq)

lemma DATA_DIR_nonempty [simp]: "DATA_DIR u \<noteq> []"
  by (simp add: DATA_DIR_def)

lemma store_paths_distinct [simp]:
  "EVAL_DATA_FILE u \<noteq> SUGGESTIONS_FILE u" "SUGGESTIONS_FILE u \<noteq> EVAL_DATA_FILE u"
  "EVAL_DATA_FILE u \<noteq> DATA_DIR u" "SUGGESTIONS_FILE u \<noteq> DATA_DIR u"
  "DATA_DIR u \<noteq> EVAL_DATA_FILE u" "DATA_DIR u \<noteq> SUGGESTIONS_FILE u"
  by (simp_all add: EVAL_DATA_FILE_eq SUGGESTIONS_FILE_eq)

section \<open>The store initializer\<close>

lemmas initialize_csv_defs =
  initialize_csv_def Let_def makedirs_def path_exists_def open_w_writerow_def

lemma initialize_csv_again:
  "initialize_csv p h (initialize_csv p h fs) = initialize_csv p h fs"
  by (auto simp: initialize_csv_defs split: if_splits)

lemma initialize_csv_keeps_files:
  "files fs q = Some rows \<Longrightarrow> files (initialize_csv p h fs) q = Some rows"
  by (auto simp: initialize_csv_defs split: if_splits)

lemma initialize_csv_keeps_dirs: "dirs fs \<subseteq> dirs (initialize_csv p h fs)"
  by (auto simp: initialize_csv_defs split: if_splits)

lemma initialize_csv_files:
  "files (initialize_csv p h fs) = files fs
   \<or> (files fs p = None \<and> files (initialize_csv p h fs) = (files fs)(p \<mapsto> [map JString h]))"
  by (auto simp: initialize_csv_defs split: if_splits)

lemma initialize_csv_oracles [simp]:
  "makedirs_fails (initialize_csv p h fs) = makedirs_fails fs"
  "create_fails (initialize_csv p h fs) = create_fails fs"
  "append_fails (initialize_csv p h fs) = append_fails fs"
  "print_fails (initialize_csv p h fs) = print_fails fs"
  by (auto simp: initialize_csv_defs split: if_splits)

lemma initialize_csv_creates:
  assumes "\<not> path_exists fs p" "\<not> makedirs_fails fs (dirname p)" "\<not> create_fails fs p"
    "dirname p \<noteq> p"
  shows "files (initialize_csv p h fs) = (files fs)(p \<mapsto> [map JString h])"
  using assms by (auto simp: initialize_csv_defs split: if_splits)

lemma initialize_csv_ready:
  assumes "files fs p \<noteq> None" "dirname p = [] \<or> dirname p \<in> dirs fs"
  shows "initialize_csv p h fs = fs"
  using assms by (auto simp: initialize_csv_defs insert_absorb split: if_splits)

section \<open>Decimal numbers and the clock\<close>

lemma digit_char_dec: "n < 10 \<Longrightarrow> is_digit (digit_char n) \<and> digit_val (digit_char n) = n"
proof -
  have "list_all (\<lambda>k. is_digit (digit_char k) \<and> digit_val (digit_char k) = k) [0..<10]"
    by code_simp
  moreover assume "n < 10"
  ultimately show ?thesis by (simp add: list_all_iff)
qed

lemma parse_nat_snoc: "parse_nat (ds @ [c]) = 10 * parse_nat ds + digit_val c"
  by (simp add: parse_nat_def)

lemma dec_digits: "\<forall>c \<in> set (dec n). is_digit c"
proof (induction n rule: dec.induct)
  case (1 n)
  show ?case
  proof (cases "n < 10")
    case True
    then show ?thesis by (simp add: dec.simps [of n] digit_char_dec)
  next
    case False
    then have "n mod 10 < 10" by simp
    with False 1 show ?thesis by (simp add: dec.simps [of n] digit_char_dec)
  qed
qed

lemma dec_nonempty: "dec n \<noteq> []"
  by (subst dec.simps) simp

lemma parse_nat_dec: "parse_nat (dec n) = n"
proof (induction n rule: dec.induct)
  case (1 n)
  show ?case
  proof (cases "n < 10")
    case True
    then show ?thesis by (simp add: dec.simps [of n] parse_nat_def digit_char_dec)
  next
    case False
    then have "n mod 10 < 10" by simp
    with False 1 show ?thesis
      by (simp add: dec.simps [of n] parse_nat_snoc digit_char_dec)
  qed
qed

lemma length_dec: "n < 10 ^ w \<Longrightarrow> 0 < w \<Longrightarrow> length (dec n) \<le> w"
proof (induction n arbitrary: w rule: dec.induct)
  case (1 n)
  show ?case
  proof (cases "n < 10")
    case True
    with 1 show ?thesis by (simp add: dec.simps [of n])
  next
    case False
    obtain v where w: "w = Suc v" using 1(3) by (cases w) auto
    have "0 < v"
    proof (rule ccontr)
      assume "\<not> 0 < v"
      with w 1(2) False show False by simp
    qed
    moreover have "n div 10 < 10 ^ v"
      using 1(2) w by (simp add: less_mult_imp_div_less mult.commute)
    ultimately have "length (dec (n div 10)) \<le> v"
      using 1(1) False by blast
    with False w show ?thesis by (simp add: dec.simps [of n])
  qed
qed

lemma parse_nat_zeros: "parse_nat (replicate k (CHR ''0'') @ ds) = parse_nat ds"
  by (induction k) (simp_all add: parse_nat_def digit_val_def)

lemma zero_pad_length: "n < 10 ^ w \<Longrightarrow> 0 < w \<Longrightarrow> length (zero_pad w n) = w"
  using length_dec [of n w] by (simp add: zero_pad_def)

lemma zero_pad_digits: "list_all is_digit (zero_pad w n)"
  using dec_digits [of n] by (auto simp: zero_pad_def list_all_iff is_digit_def)

lemma parse_nat_zero_pad: "parse_nat (zero_pad w n) = n"
  by (simp add: zero_pad_def parse_nat_zeros parse_nat_dec)

lemma take_digits_zero_pad:
  "n < 10 ^ w \<Longrightarrow> 0 < w \<Longrightarrow> take_digits w (zero_pad w n @ r) = Some (n, r)"
  by (simp add: take_digits_def zero_pad_length zero_pad_digits parse_nat_zero_pad)

lemma expect_Cons [simp]: "expect c (c # r) = Some r"
  by (simp add: expect_def)

lemma zero_pad_nonempty: "zero_pad w n \<noteq> []"
  by (simp add: zero_pad_def dec_nonempty)

lemma isoformat_nonempty: "isoformat d \<noteq> []"
  by (simp add: isoformat_def zero_pad_nonempty)

lemma fromisoformat_isoformat:
  assumes "valid_datetime d"
  shows "fromisoformat (isoformat d) = Some d"
proof -
  have y: "year d < 10 ^ 4" and mo: "month d < 10 ^ 2" and dd: "day d < 10 ^ 2"
    and hh: "hour d < 10 ^ 2" and mi: "minute d < 10 ^ 2" and ss: "second d < 10 ^ 2"
    and us: "microsecond d < 10 ^ 6"
    using assms by (auto simp: valid_datetime_def days_in_month_def split: if_splits)
  note td = take_digits_zero_pad
  show ?thesis
  proof (cases "microsecond d = 0")
    case True
    have "fromisoformat (isoformat d)
        = (let e = \<lparr>year = year d, month = month d, day = day d, hour = hour d,
                    minute = minute d, second = second d, microsecond = 0\<rparr>
           in if valid_datetime e then Some e else None)"
      using True
      by (simp add: fromisoformat_def isoformat_def td [OF y] td [OF mo] td [OF dd] td [OF hh]
          td [OF mi] td [OF ss, of "[]", simplified])
    also have "\<lparr>year = year d, month = month d, day = day d, hour = hour d,
        minute = minute d, second = second d, microsecond = 0\<rparr> = d"
      using True by simp
    finally show ?thesis using assms by simp
  next
    case False
    have "fromisoformat (isoformat d)
        = (let e = \<lparr>year = year d, month = month d, day = day d, hour = hour d,
                    minute = minute d, second = second d, microsecond = microsecond d\<rparr>
           in if valid_datetime e then Some e else None)"
      using False
      by (simp add: fromisoformat_def isoformat_def td [OF y] td [OF mo] td [OF dd] td [OF hh]
          td [OF mi] td [OF ss] td [OF us, of "[]", simplified])
    also have "\<lparr>year = year d, month = month d, day = day d, hour = hour d,
        minute = minute d, second = second d, microsecond = microsecond d\<rparr> = d"
      by simp
    finally show ?thesis using assms by simp
  qed
qed

section \<open>The two endpoints\<close>

lemma bind_exn_simps [simp]:
  "bind_exn (Inl e) f = Inl e" "bind_exn (Inr x) f = f x"
  by (simp_all add: bind_exn_def)

lemma dict_get_object [simp]: "dict_get (JObject kvs) key dflt = Inr (lookup kvs key dflt)"
  by (simp add: dict_get_def)


lemma dict_to_list_final_row:
  "dict_to_list header (final_row_of header row_data)
     = Inr (map (\<lambda>key. lookup row_data key JNull) header)"
proof -
  have "map_of (map (\<lambda>key. (key, lookup row_data key JNull)) header) k
      = Some (lookup row_data k JNull)" if "k \<in> set header" for k
    using that by (induction header) auto
  then have "map (\<lambda>key. lookup (final_row_of header row_data) key (JString [])) header
      = map (\<lambda>key. lookup row_data key JNull) header"
    by (simp add: final_row_of_def lookup_def)
  moreover have "list_all (\<lambda>k. k \<in> set header) (map fst (final_row_of header row_data))"
    by (simp add: final_row_of_def list_all_iff)
  ultimately show ?thesis by (simp add: dict_to_list_def)
qed

lemma eval_csv_row_object:
  "eval_csv_row now1 now2 (JObject kvs) =
     (case lookup kvs ''results'' (JObject []) of
        JObject rs \<Rightarrow> Inr (eval_cells now1 now2 kvs rs)
      | _ \<Rightarrow> Inl AttributeError)"
  by (cases "lookup kvs ''results'' (JObject [])")
    (simp_all add: eval_csv_row_def eval_final_row_def dict_to_list_final_row dict_get_def
      eval_cells_def EVAL_CSV_HEADER_def lookup_def [of "_ # _"])




lemma eval_final_row_cases:
  "(\<exists>e. eval_final_row now1 now2 data = Inl e \<and> eval_csv_row now1 now2 data = Inl e)
   \<or> (\<exists>row_data. eval_final_row now1 now2 data = Inr (final_row_of EVAL_CSV_HEADER row_data)
        \<and> eval_csv_row now1 now2 data
            = Inr (map (\<lambda>key. lookup row_data key JNull) EVAL_CSV_HEADER))"
proof (cases "eval_final_row now1 now2 data")
  case (Inl e)
  then show ?thesis by (simp add: eval_csv_row_def)
next
  case (Inr fr)
  then obtain kvs where data: "data = JObject kvs"
    by (cases data) (simp_all add: eval_final_row_def dict_get_def)
  from Inr obtain rs where "lookup kvs ''results'' (JObject []) = JObject rs"
    unfolding data
    by (cases "lookup kvs ''results'' (JObject [])") (simp_all add: eval_final_row_def dict_get_def)
  then have "\<exists>row_data. eval_final_row now1 now2 data
      = Inr (final_row_of EVAL_CSV_HEADER row_data)"
    unfolding data by (simp add: eval_final_row_def) blast
  then obtain row_data where
    "eval_final_row now1 now2 data = Inr (final_row_of EVAL_CSV_HEADER row_data)" ..
  then show ?thesis
    by (intro disjI2 exI [of _ row_data]) (simp add: eval_csv_row_def dict_to_list_final_row)
qed

lemma suggestion_final_row_cases:
  "(\<exists>e. suggestion_final_row now data = Inl e \<and> suggestion_csv_row now data = Inl e)
   \<or> (\<exists>row_data. suggestion_final_row now data = Inr (final_row_of SUGGESTIONS_HEADER row_data)
        \<and> suggestion_csv_row now data
            = Inr (map (\<lambda>key. lookup row_data key JNull) SUGGESTIONS_HEADER))"
proof (cases "suggestion_final_row now data")
  case (Inl e)
  then show ?thesis by (simp add: suggestion_csv_row_def)
next
  case (Inr fr)
  then obtain kvs where data: "data = JObject kvs"
    by (cases data) (simp_all add: suggestion_final_row_def dict_get_def)
  from Inr have "\<exists>row_data. suggestion_final_row now data
      = Inr (final_row_of SUGGESTIONS_HEADER row_data)"
    unfolding data by (simp add: suggestion_final_row_def split: if_splits) blast
  then obtain row_data where
    "suggestion_final_row now data = Inr (final_row_of SUGGESTIONS_HEADER row_data)" ..
  then show ?thesis
    by (intro disjI2 exI [of _ row_data])
      (simp add: suggestion_csv_row_def dict_to_list_final_row)
qed

lemma suggestion_csv_row_object:
  "suggestion_csv_row now (JObject kvs) =
     (if falsy (lookup kvs ''medicationName'' JNull) \<or> falsy (lookup kvs ''details'' JNull)
      then Inl (ValueError ''Missing required suggestion fields (medicationName or details)'')
      else Inr (suggestion_cells now kvs))"
  by (simp add: suggestion_csv_row_def suggestion_final_row_def dict_to_list_final_row
      suggestion_cells_def SUGGESTIONS_HEADER_def lookup_def [of "_ # _"])


lemma dict_index_final_row:
  "key \<in> set header \<Longrightarrow>
   dict_index (final_row_of header row_data) key = Inr (lookup row_data key JNull)"
proof -
  have "map_of (map (\<lambda>key. (key, lookup row_data key JNull)) header) k
      = Some (lookup row_data k JNull)" if "k \<in> set header" for k
    using that by (induction header) auto
  then show "key \<in> set header \<Longrightarrow> ?thesis"
    by (simp add: dict_index_def final_row_of_def)
qed

lemma print_saved_final_row:
  "key \<in> set header \<Longrightarrow>
   print_saved fs (final_row_of header row_data) key = print_fails fs (lookup row_data key JNull)"
  by (simp add: print_saved_def dict_index_final_row)

text \<open>
  The append and the line printed after it, for the row that an endpoint has assembled:
  \<open>append_outcome\<close> says what reaches the handlers of the second \<^verbatim>\<open>try\<close> block.
\<close>

lemma open_a_writerow_final_row:
  assumes "path_exists fs p" "key \<in> set header"
  shows "(case open_a_writerow p header (final_row_of header row_data) fs of
            (Some e, fs1) \<Rightarrow> (Some e, fs1)
          | (None, fs1) \<Rightarrow> (print_saved fs1 (final_row_of header row_data) key, fs1))
     = append_outcome p (map (\<lambda>key. lookup row_data key JNull) header)
         (lookup row_data key JNull) fs"
  using assms
  by (auto simp: open_a_writerow_def append_outcome_def dict_to_list_final_row path_exists_def
      print_saved_final_row Let_def split: option.splits fault.splits)

lemma write_handlers_simps [simp]:
  "snd (write_handlers m e) = 500"
  "write_handlers m e \<noteq> (b, 200)" "write_handlers m e \<noteq> (b, 400)"
  "write_handlers m OSError = (ErrorBody m, 500)"
  "write_handlers m UnicodeEncodeError = (ErrorBody ''An internal server error occurred'', 500)"
  by (simp_all add: write_handlers_def split: exn.splits)

lemma header_cells [simp]:
  "map f EVAL_CSV_HEADER ! 0 = f ''researchId''"
  "map f SUGGESTIONS_HEADER ! 1 = f ''medicationName''"
  "map f SUGGESTIONS_HEADER ! Suc 0 = f ''medicationName''"
  "''researchId'' \<in> set EVAL_CSV_HEADER" "''medicationName'' \<in> set SUGGESTIONS_HEADER"
  by (simp_all add: EVAL_CSV_HEADER_def SUGGESTIONS_HEADER_def)

lemma save_data_Json:
  "save_data u now1 now2 (Json data) fs0 =
     (let fs = initialize_csv (EVAL_DATA_FILE u) EVAL_CSV_HEADER fs0 in
      case eval_csv_row now1 now2 data of
        Inl e \<Rightarrow> ((ErrorBody ''Invalid data format'', 400), fs)
      | Inr row \<Rightarrow>
          if \<not> path_exists fs (EVAL_DATA_FILE u)
          then
            (case print_fails fs0 (JString (EVAL_DATA_FILE u)) of
               None \<Rightarrow> ((ErrorBody ''Could not access data storage'', 500), fs)
             | Some e \<Rightarrow>
                 (write_handlers ''Could not save evaluation data due to file error'' e, fs))
          else
            (case append_outcome (EVAL_DATA_FILE u) row (row ! 0) fs of
               (None, fs1) \<Rightarrow> ((MessageBody ''Evaluation data saved successfully'', 200), fs1)
             | (Some e, fs1) \<Rightarrow>
                 (write_handlers ''Could not save evaluation data due to file error'' e, fs1)))"
proof -
  let ?p = "EVAL_DATA_FILE u"
  let ?fs = "initialize_csv ?p EVAL_CSV_HEADER fs0"
  consider e where "eval_final_row now1 now2 data = Inl e" "eval_csv_row now1 now2 data = Inl e"
    | row_data where "eval_final_row now1 now2 data = Inr (final_row_of EVAL_CSV_HEADER row_data)"
      "eval_csv_row now1 now2 data
        = Inr (map (\<lambda>key. lookup row_data key JNull) EVAL_CSV_HEADER)"
    using eval_final_row_cases [of now1 now2 data] by blast
  then show ?thesis
  proof cases
    case 1
    then show ?thesis by (simp add: save_data_def Let_def)
  next
    case 2
    show ?thesis
    proof (cases "path_exists ?fs ?p")
      case False
      with 2 show ?thesis by (simp add: save_data_def Let_def)
    next
      case True
      from open_a_writerow_final_row [OF True, of "''researchId''" EVAL_CSV_HEADER row_data]
      have "append_outcome ?p (map (\<lambda>key. lookup row_data key JNull) EVAL_CSV_HEADER)
            (lookup row_data ''researchId'' JNull) ?fs
          = (case open_a_writerow ?p EVAL_CSV_HEADER (final_row_of EVAL_CSV_HEADER row_data) ?fs of
               (Some e, fs1) \<Rightarrow> (Some e, fs1)
             | (None, fs1) \<Rightarrow>
                 (print_saved fs1 (final_row_of EVAL_CSV_HEADER row_data) ''researchId'', fs1))"
        by simp
      with 2 True show ?thesis
        by (simp add: save_data_def Let_def split: prod.splits option.splits)
    qed
  qed
qed

lemma save_suggestion_Json:
  "save_suggestion u now (Json data) fs0 =
     (let fs = initialize_csv (SUGGESTIONS_FILE u) SUGGESTIONS_HEADER fs0 in
      case suggestion_csv_row now data of
        Inl (ValueError ve) \<Rightarrow> ((ErrorBody ve, 400), fs)
      | Inl e \<Rightarrow> ((ErrorBody ''Invalid suggestion data format'', 400), fs)
      | Inr row \<Rightarrow>
          if \<not> path_exists fs (SUGGESTIONS_FILE u)
          then
            (case print_fails fs0 (JString (SUGGESTIONS_FILE u)) of
               None \<Rightarrow> ((ErrorBody ''Could not access suggestion storage'', 500), fs)
             | Some e \<Rightarrow>
                 (write_handlers ''Could not save suggestion due to file error'' e, fs))
          else
            (case append_outcome (SUGGESTIONS_FILE u) row (row ! 1) fs of
               (None, fs1) \<Rightarrow> ((MessageBody ''Suggestion saved successfully'', 200), fs1)
             | (Some e, fs1) \<Rightarrow>
                 (write_handlers ''Could not save suggestion due to file error'' e, fs1)))"
proof -
  let ?p = "SUGGESTIONS_FILE u"
  let ?fs = "initialize_csv ?p SUGGESTIONS_HEADER fs0"
  consider e where "suggestion_final_row now data = Inl e" "suggestion_csv_row now data = Inl e"
    | row_data where
      "suggestion_final_row now data = Inr (final_row_of SUGGESTIONS_HEADER row_data)"
      "suggestion_csv_row now data
        = Inr (map (\<lambda>key. lookup row_data key JNull) SUGGESTIONS_HEADER)"
    using suggestion_final_row_cases [of now data] by blast
  then show ?thesis
  proof cases
    case 1
    then show ?thesis by (simp add: save_suggestion_def Let_def)
  next
    case 2
    show ?thesis
    proof (cases "path_exists ?fs ?p")
      case False
      with 2 show ?thesis by (simp add: save_suggestion_def Let_def)
    next
      case True
      from open_a_writerow_final_row [OF True, of "''medicationName''" SUGGESTIONS_HEADER row_data]
      have "append_outcome ?p (map (\<lambda>key. lookup row_data key JNull) SUGGESTIONS_HEADER)
            (lookup row_data ''medicationName'' JNull) ?fs
          = (case open_a_writerow ?p SUGGESTIONS_HEADER
                    (final_row_of SUGGESTIONS_HEADER row_data) ?fs of
               (Some e, fs1) \<Rightarrow> (Some e, fs1)
             | (None, fs1) \<Rightarrow>
                 (print_saved fs1 (final_row_of SUGGESTIONS_HEADER row_data) ''medicationName'',
                  fs1))"
        by simp
      with 2 True show ?thesis
        by (simp add: save_suggestion_def Let_def split: prod.splits option.splits)
    qed
  qed
qed



lemma save_data_accepted:
  assumes "save_data u now1 now2 req fs0 = ((b, 200), fs')"
  defines "fs \<equiv> initialize_csv (EVAL_DATA_FILE u) EVAL_CSV_HEADER fs0"
  shows "\<exists>data row rows. req = Json data \<and> eval_csv_row now1 now2 data = Inr row
    \<and> files fs (EVAL_DATA_FILE u) = Some rows \<and> append_fails fs (EVAL_DATA_FILE u) = None
    \<and> print_fails fs (row ! 0) = None
    \<and> fs' = fs\<lparr>files := (files fs)(EVAL_DATA_FILE u \<mapsto> rows @ [row])\<rparr>
    \<and> b = MessageBody ''Evaluation data saved successfully''"
proof (cases req)
  case NotJson
  with assms(1) show ?thesis by (simp add: save_data_def Let_def)
next
  case BadJson
  with assms(1) show ?thesis by (simp add: save_data_def Let_def)
next
  case (Json data)
  with assms(1) show ?thesis
    unfolding fs_def
    by (auto simp: save_data_Json Let_def append_outcome_def
        split: sum.splits if_splits option.splits exn.splits fault.splits)
qed

lemma save_data_accepts:
  assumes "eval_csv_row now1 now2 data = Inr row"
    and "files (initialize_csv (EVAL_DATA_FILE u) EVAL_CSV_HEADER fs0) (EVAL_DATA_FILE u) = Some rows"
    and "append_fails fs0 (EVAL_DATA_FILE u) = None"
    and "print_fails fs0 (row ! 0) = None"
  shows "save_data u now1 now2 (Json data) fs0
    = ((MessageBody ''Evaluation data saved successfully'', 200),
       (initialize_csv (EVAL_DATA_FILE u) EVAL_CSV_HEADER fs0)
         \<lparr>files := (files (initialize_csv (EVAL_DATA_FILE u) EVAL_CSV_HEADER fs0))
            (EVAL_DATA_FILE u \<mapsto> rows @ [row])\<rparr>)"
  using assms by (simp add: save_data_Json Let_def append_outcome_def path_exists_def)

lemma save_suggestion_accepted:
  assumes "save_suggestion u now req fs0 = ((b, 200), fs')"
  defines "fs \<equiv> initialize_csv (SUGGESTIONS_FILE u) SUGGESTIONS_HEADER fs0"
  shows "\<exists>data row rows. req = Json data \<and> suggestion_csv_row now data = Inr row
    \<and> files fs (SUGGESTIONS_FILE u) = Some rows \<and> append_fails fs (SUGGESTIONS_FILE u) = None
    \<and> print_fails fs (row ! 1) = None
    \<and> fs' = fs\<lparr>files := (files fs)(SUGGESTIONS_FILE u \<mapsto> rows @ [row])\<rparr>
    \<and> b = MessageBody ''Suggestion saved successfully''"
proof (cases req)
  case NotJson
  with assms(1) show ?thesis by (simp add: save_suggestion_def Let_def)
next
  case BadJson
  with assms(1) show ?thesis by (simp add: save_suggestion_def Let_def)
next
  case (Json data)
  with assms(1) show ?thesis
    unfolding fs_def
    by (auto simp: save_suggestion_Json Let_def append_outcome_def
        split: sum.splits if_splits option.splits exn.splits fault.splits)
qed

lemma save_suggestion_accepts:
  assumes "suggestion_csv_row now data = Inr row"
    and "files (initialize_csv (SUGGESTIONS_FILE u) SUGGESTIONS_HEADER fs0) (SUGGESTIONS_FILE u)
          = Some rows"
    and "append_fails fs0 (SUGGESTIONS_FILE u) = None"
    and "print_fails fs0 (row ! 1) = None"
  shows "save_suggestion u now (Json data) fs0
    = ((MessageBody ''Suggestion saved successfully'', 200),
       (initialize_csv (SUGGESTIONS_FILE u) SUGGESTIONS_HEADER fs0)
         \<lparr>files := (files (initialize_csv (SUGGESTIONS_FILE u) SUGGESTIONS_HEADER fs0))
            (SUGGESTIONS_FILE u \<mapsto> rows @ [row])\<rparr>)"
  using assms by (simp add: save_suggestion_Json Let_def append_outcome_def path_exists_def)









text \<open>A request never shortens or changes what is in a store file.\<close>

lemma save_data_extends:
  assumes "files fs0 q = Some old"
  shows "\<exists>new. files (snd (save_data u now1 now2 req fs0)) q = Some (old @ new)"
proof -
  let ?fs = "initialize_csv (EVAL_DATA_FILE u) EVAL_CSV_HEADER fs0"
  have keep: "files ?fs q = Some old"
    using assms by (rule initialize_csv_keeps_files)
  show ?thesis
  proof (cases req)
    case NotJson
    with keep show ?thesis by (simp add: save_data_def Let_def)
  next
    case BadJson
    with keep show ?thesis by (simp add: save_data_def Let_def)
  next
    case (Json data)
    with keep show ?thesis
      by (auto simp: save_data_Json Let_def append_outcome_def
          split: sum.splits if_splits option.splits exn.splits fault.splits)
  qed
qed

lemma save_suggestion_extends:
  assumes "files fs0 q = Some old"
  shows "\<exists>new. files (snd (save_suggestion u now req fs0)) q = Some (old @ new)"
proof -
  let ?fs = "initialize_csv (SUGGESTIONS_FILE u) SUGGESTIONS_HEADER fs0"
  have keep: "files ?fs q = Some old"
    using assms by (rule initialize_csv_keeps_files)
  show ?thesis
  proof (cases req)
    case NotJson
    with keep show ?thesis by (simp add: save_suggestion_def Let_def)
  next
    case BadJson
    with keep show ?thesis by (simp add: save_suggestion_def Let_def)
  next
    case (Json data)
    with keep show ?thesis
      by (auto simp: save_suggestion_Json Let_def append_outcome_def
          split: sum.splits if_splits option.splits exn.splits fault.splits)
  qed
qed



lemma save_data_accepted_file:
  assumes "save_data u now1 now2 req fs0 = ((b, 200), fs')"
  shows "\<exists>row. eval_row_of (now1, now2, req) row
    \<and> (case files fs0 (EVAL_DATA_FILE u) of
          None \<Rightarrow> files fs' (EVAL_DATA_FILE u) = Some [map JString EVAL_CSV_HEADER, row]
        | Some old \<Rightarrow> files fs' (EVAL_DATA_FILE u) = Some (old @ [row]))"
proof -
  let ?p = "EVAL_DATA_FILE u"
  let ?fs = "initialize_csv ?p EVAL_CSV_HEADER fs0"
  from save_data_accepted [OF assms] obtain data row rows where
    req: "req = Json data" and row: "eval_csv_row now1 now2 data = Inr row"
    and rows: "files ?fs ?p = Some rows"
    and fs': "fs' = ?fs\<lparr>files := (files ?fs)(?p \<mapsto> rows @ [row])\<rparr>"
    by blast
  have "case files fs0 ?p of None \<Rightarrow> rows = [map JString EVAL_CSV_HEADER] | Some old \<Rightarrow> rows = old"
    using initialize_csv_files [of ?p EVAL_CSV_HEADER fs0] rows
    by (auto split: option.splits)
  then show ?thesis
    using req row fs' by (auto simp: eval_row_of_def split: option.splits)
qed

lemma save_suggestion_accepted_file:
  assumes "save_suggestion u now req fs0 = ((b, 200), fs')"
  shows "\<exists>row. suggestion_row_of (now, req) row
    \<and> (case files fs0 (SUGGESTIONS_FILE u) of
          None \<Rightarrow> files fs' (SUGGESTIONS_FILE u) = Some [map JString SUGGESTIONS_HEADER, row]
        | Some old \<Rightarrow> files fs' (SUGGESTIONS_FILE u) = Some (old @ [row]))"
proof -
  let ?p = "SUGGESTIONS_FILE u"
  let ?fs = "initialize_csv ?p SUGGESTIONS_HEADER fs0"
  from save_suggestion_accepted [OF assms] obtain data row rows where
    req: "req = Json data" and row: "suggestion_csv_row now data = Inr row"
    and rows: "files ?fs ?p = Some rows"
    and fs': "fs' = ?fs\<lparr>files := (files ?fs)(?p \<mapsto> rows @ [row])\<rparr>"
    by blast
  have "case files fs0 ?p of None \<Rightarrow> rows = [map JString SUGGESTIONS_HEADER]
      | Some old \<Rightarrow> rows = old"
    using initialize_csv_files [of ?p SUGGESTIONS_HEADER fs0] rows
    by (auto split: option.splits)
  then show ?thesis
    using req row fs' by (auto simp: suggestion_row_of_def split: option.splits)
qed

lemma run_save_data_appends:
  assumes "files fs (EVAL_DATA_FILE u) = Some old" "run_save_data u subs fs = (resps, fs')"
    "\<forall>r \<in> set resps. snd r = 200"
  shows "\<exists>rows. files fs' (EVAL_DATA_FILE u) = Some (old @ rows) \<and> list_all2 eval_row_of subs rows"
  using assms
proof (induction subs arbitrary: fs old resps)
  case Nil
  then show ?case by simp
next
  case (Cons sub subs)
  obtain now1 now2 req where sub: "sub = (now1, now2, req)" by (cases sub) auto
  obtain resp fs1 where step: "save_data u now1 now2 req fs = (resp, fs1)"
    by (cases "save_data u now1 now2 req fs") auto
  obtain resps1 where rest: "run_save_data u subs fs1 = (resps1, fs')" and resps: "resps = resp # resps1"
    using Cons.prems(2) sub step by (auto split: prod.splits)
  from Cons.prems(3) resps obtain b where resp: "resp = (b, 200)"
    by (cases resp) auto
  from save_data_accepted_file [OF step [unfolded resp]] Cons.prems(1)
  obtain row where row: "eval_row_of (now1, now2, req) row"
    and f1: "files fs1 (EVAL_DATA_FILE u) = Some (old @ [row])"
    by auto
  from Cons.prems(3) resps have "\<forall>r \<in> set resps1. snd r = 200" by simp
  from Cons.IH [OF f1 rest this] obtain rows where
    "files fs' (EVAL_DATA_FILE u) = Some ((old @ [row]) @ rows)" "list_all2 eval_row_of subs rows"
    by blast
  then show ?case
    using row sub by (intro exI [of _ "row # rows"]) simp
qed

lemma run_save_suggestion_appends:
  assumes "files fs (SUGGESTIONS_FILE u) = Some old" "run_save_suggestion u subs fs = (resps, fs')"
    "\<forall>r \<in> set resps. snd r = 200"
  shows "\<exists>rows. files fs' (SUGGESTIONS_FILE u) = Some (old @ rows)
    \<and> list_all2 suggestion_row_of subs rows"
  using assms
proof (induction subs arbitrary: fs old resps)
  case Nil
  then show ?case by simp
next
  case (Cons sub subs)
  obtain now req where sub: "sub = (now, req)" by (cases sub) auto
  obtain resp fs1 where step: "save_suggestion u now req fs = (resp, fs1)"
    by (cases "save_suggestion u now req fs") auto
  obtain resps1 where rest: "run_save_suggestion u subs fs1 = (resps1, fs')"
    and resps: "resps = resp # resps1"
    using Cons.prems(2) sub step by (auto split: prod.splits)
  from Cons.prems(3) resps obtain b where resp: "resp = (b, 200)"
    by (cases resp) auto
  from save_suggestion_accepted_file [OF step [unfolded resp]] Cons.prems(1)
  obtain row where row: "suggestion_row_of (now, req) row"
    and f1: "files fs1 (SUGGESTIONS_FILE u) = Some (old @ [row])"
    by auto
  from Cons.prems(3) resps have "\<forall>r \<in> set resps1. snd r = 200" by simp
  from Cons.IH [OF f1 rest this] obtain rows where
    "files fs' (SUGGESTIONS_FILE u) = Some ((old @ [row]) @ rows)"
    "list_all2 suggestion_row_of subs rows"
    by blast
  then show ?case
    using row sub by (intro exI [of _ "row # rows"]) simp
qed

lemma run_save_data_fresh:
  assumes "files fs (EVAL_DATA_FILE u) = None" "run_save_data u subs fs = (resps, fs')"
    "\<forall>r \<in> set resps. snd r = 200"
  shows "if subs = [] then files fs' (EVAL_DATA_FILE u) = None
    else \<exists>rows. files fs' (EVAL_DATA_FILE u) = Some (map JString EVAL_CSV_HEADER # rows)
      \<and> length rows = length subs \<and> list_all2 eval_row_of subs rows"
proof (cases subs)
  case Nil
  with assms show ?thesis by simp
next
  case (Cons sub subs1)
  obtain now1 now2 req where sub: "sub = (now1, now2, req)" by (cases sub) auto
  obtain resp fs1 where step: "save_data u now1 now2 req fs = (resp, fs1)"
    by (cases "save_data u now1 now2 req fs") auto
  obtain resps1 where rest: "run_save_data u subs1 fs1 = (resps1, fs')"
    and resps: "resps = resp # resps1"
    using assms(2) Cons sub step by (auto split: prod.splits)
  from assms(3) resps obtain b where resp: "resp = (b, 200)"
    by (cases resp) auto
  from save_data_accepted_file [OF step [unfolded resp]] assms(1)
  obtain row where row: "eval_row_of (now1, now2, req) row"
    and f1: "files fs1 (EVAL_DATA_FILE u) = Some [map JString EVAL_CSV_HEADER, row]"
    by auto
  from assms(3) resps have "\<forall>r \<in> set resps1. snd r = 200" by simp
  from run_save_data_appends [OF f1 rest this] obtain rows where
    "files fs' (EVAL_DATA_FILE u) = Some ([map JString EVAL_CSV_HEADER, row] @ rows)"
    "list_all2 eval_row_of subs1 rows"
    by blast
  then have "files fs' (EVAL_DATA_FILE u) = Some (map JString EVAL_CSV_HEADER # row # rows)
      \<and> length (row # rows) = length subs \<and> list_all2 eval_row_of subs (row # rows)"
    using row sub Cons by (simp add: list_all2_lengthD [symmetric])
  then show ?thesis using Cons by (auto intro!: exI [of _ "row # rows"])
qed

lemma run_save_suggestion_fresh:
  assumes "files fs (SUGGESTIONS_FILE u) = None" "run_save_suggestion u subs fs = (resps, fs')"
    "\<forall>r \<in> set resps. snd r = 200"
  shows "if subs = [] then files fs' (SUGGESTIONS_FILE u) = None
    else \<exists>rows. files fs' (SUGGESTIONS_FILE u) = Some (map JString SUGGESTIONS_HEADER # rows)
      \<and> length rows = length subs \<and> list_all2 suggestion_row_of subs rows"
proof (cases subs)
  case Nil
  with assms show ?thesis by simp
next
  case (Cons sub subs1)
  obtain now req where sub: "sub = (now, req)" by (cases sub) auto
  obtain resp fs1 where step: "save_suggestion u now req fs = (resp, fs1)"
    by (cases "save_suggestion u now req fs") auto
  obtain resps1 where rest: "run_save_suggestion u subs1 fs1 = (resps1, fs')"
    and resps: "resps = resp # resps1"
    using assms(2) Cons sub step by (auto split: prod.splits)
  from assms(3) resps obtain b where resp: "resp = (b, 200)"
    by (cases resp) auto
  from save_suggestion_accepted_file [OF step [unfolded resp]] assms(1)
  obtain row where row: "suggestion_row_of (now, req) row"
    and f1: "files fs1 (SUGGESTIONS_FILE u) = Some [map JString SUGGESTIONS_HEADER, row]"
    by auto
  from assms(3) resps have "\<forall>r \<in> set resps1. snd r = 200" by simp
  from run_save_suggestion_appends [OF f1 rest this] obtain rows where
    "files fs' (SUGGESTIONS_FILE u) = Some ([map JString SUGGESTIONS_HEADER, row] @ rows)"
    "list_all2 suggestion_row_of subs1 rows"
    by blast
  then have "files fs' (SUGGESTIONS_FILE u) = Some (map JString SUGGESTIONS_HEADER # row # rows)
      \<and> length (row # rows) = length subs \<and> list_all2 suggestion_row_of subs (row # rows)"
    using row sub Cons by (simp add: list_all2_lengthD [symmetric])
  then show ?thesis using Cons by (auto intro!: exI [of _ "row # rows"])
qed

lemma run_save_data_extends:
  "files fs q = Some old \<Longrightarrow> \<exists>new. files (snd (run_save_data u subs fs)) q = Some (old @ new)"
proof (induction subs arbitrary: fs old)
  case Nil
  then show ?case by simp
next
  case (Cons sub subs)
  obtain now1 now2 req where sub: "sub = (now1, now2, req)" by (cases sub) auto
  from save_data_extends [OF Cons.prems, of u now1 now2 req] obtain new1 where
    f1: "files (snd (save_data u now1 now2 req fs)) q = Some (old @ new1)" by blast
  from Cons.IH [OF f1] obtain new2 where
    "files (snd (run_save_data u subs (snd (save_data u now1 now2 req fs)))) q
      = Some ((old @ new1) @ new2)" by blast
  then show ?case
    by (intro exI [of _ "new1 @ new2"]) (simp add: sub case_prod_unfold Let_def)
qed

lemma run_save_suggestion_extends:
  "files fs q = Some old \<Longrightarrow>
   \<exists>new. files (snd (run_save_suggestion u subs fs)) q = Some (old @ new)"
proof (induction subs arbitrary: fs old)
  case Nil
  then show ?case by simp
next
  case (Cons sub subs)
  obtain now req where sub: "sub = (now, req)" by (cases sub) auto
  from save_suggestion_extends [OF Cons.prems, of u now req] obtain new1 where
    f1: "files (snd (save_suggestion u now req fs)) q = Some (old @ new1)" by blast
  from Cons.IH [OF f1] obtain new2 where
    "files (snd (run_save_suggestion u subs (snd (save_suggestion u now req fs)))) q
      = Some ((old @ new1) @ new2)" by blast
  then show ?case
    by (intro exI [of _ "new1 @ new2"]) (simp add: sub case_prod_unfold Let_def)
qed



section \<open>Facts about the example inputs\<close>

lemma isoformat_noon: "isoformat noon = ''2025-03-14T12:00:00''"
  by (simp add: isoformat_def noon_def zero_pad_def dec.simps digit_char_def)

lemma isoformat_later: "isoformat later = ''2025-03-14T12:00:07.250000''"
  by (simp add: isoformat_def later_def zero_pad_def dec.simps digit_char_def)

lemma valid_noon: "valid_datetime noon"
  by (simp add: valid_datetime_def noon_def days_in_month_def)

lemma valid_later: "valid_datetime later"
  by (simp add: valid_datetime_def later_def days_in_month_def)

lemma initialize_csv_empty_fs:
  "dirname p \<noteq> p \<Longrightarrow> files (initialize_csv p h empty_fs) = [p \<mapsto> [map JString h]]"
  by (subst initialize_csv_creates) (simp_all add: empty_fs_def path_exists_def)

lemma ready_fs_simps [simp]:
  "files (ready_fs u) (EVAL_DATA_FILE u) = Some [map JString EVAL_CSV_HEADER]"
  "files (ready_fs u) (SUGGESTIONS_FILE u) = Some [map JString SUGGESTIONS_HEADER]"
  "dirs (ready_fs u) = {DATA_DIR u}"
  "append_fails (ready_fs u) p = None"
  "makedirs_fails (ready_fs u) p = False"
  "print_fails (ready_fs u) v = None"
  by (simp_all add: ready_fs_def)

lemma initialize_csv_ready_fs [simp]:
  "initialize_csv (EVAL_DATA_FILE u) h (ready_fs u) = ready_fs u"
  "initialize_csv (SUGGESTIONS_FILE u) h (ready_fs u) = ready_fs u"
  by (rule initialize_csv_ready; simp)+

lemma append_outcome_state:
  "snd (append_outcome p row logged fs) = fs
   \<or> (\<exists>f. snd (append_outcome p row logged fs) = fs\<lparr>files := f\<rparr>)"
  by (auto simp: append_outcome_def split: option.splits fault.splits)

lemma snd_handlers:
  "snd (case x of (None, fs1) \<Rightarrow> (a, fs1) | (Some e, fs1) \<Rightarrow> (h e, fs1)) = snd x"
  "snd (case y of None \<Rightarrow> (a, fs) | Some e \<Rightarrow> (h e, fs)) = fs"
  by (simp_all split: prod.splits option.splits)

lemma save_data_state:
  "snd (save_data u now1 now2 req fs) = initialize_csv (EVAL_DATA_FILE u) EVAL_CSV_HEADER fs
   \<or> (\<exists>f. snd (save_data u now1 now2 req fs)
          = (initialize_csv (EVAL_DATA_FILE u) EVAL_CSV_HEADER fs)\<lparr>files := f\<rparr>)"
proof (cases req)
  case (Json data)
  then show ?thesis
    using append_outcome_state
      [of "EVAL_DATA_FILE u" _ _ "initialize_csv (EVAL_DATA_FILE u) EVAL_CSV_HEADER fs"]
    by (simp add: save_data_Json Let_def snd_handlers split: sum.splits)
qed (simp_all add: save_data_def Let_def)

lemma save_suggestion_state:
  "snd (save_suggestion u now req fs)
     = initialize_csv (SUGGESTIONS_FILE u) SUGGESTIONS_HEADER fs
   \<or> (\<exists>f. snd (save_suggestion u now req fs)
          = (initialize_csv (SUGGESTIONS_FILE u) SUGGESTIONS_HEADER fs)\<lparr>files := f\<rparr>)"
proof (cases req)
  case (Json data)
  then show ?thesis
    using append_outcome_state
      [of "SUGGESTIONS_FILE u" _ _ "initialize_csv (SUGGESTIONS_FILE u) SUGGESTIONS_HEADER fs"]
    by (simp add: save_suggestion_Json Let_def snd_handlers split: sum.splits exn.splits)
qed (simp_all add: save_suggestion_def Let_def)

lemma save_data_oracles [simp]:
  "append_fails (snd (save_data u now1 now2 req fs)) = append_fails fs"
  "print_fails (snd (save_data u now1 now2 req fs)) = print_fails fs"
  "makedirs_fails (snd (save_data u now1 now2 req fs)) = makedirs_fails fs"
  "create_fails (snd (save_data u now1 now2 req fs)) = create_fails fs"
  using save_data_state [of u now1 now2 req fs] by auto

lemma save_suggestion_oracles [simp]:
  "append_fails (snd (save_suggestion u now req fs)) = append_fails fs"
  "print_fails (snd (save_suggestion u now req fs)) = print_fails fs"
  "makedirs_fails (snd (save_suggestion u now req fs)) = makedirs_fails fs"
  "create_fails (snd (save_suggestion u now req fs)) = create_fails fs"
  using save_suggestion_state [of u now req fs] by auto

lemma save_data_accepts_file:
  assumes "eval_csv_row now1 now2 data = Inr row" "files fs (EVAL_DATA_FILE u) = Some rows"
    "append_fails fs (EVAL_DATA_FILE u) = None" "print_fails fs (row ! 0) = None"
  shows "fst (save_data u now1 now2 (Json data) fs)
      = (MessageBody ''Evaluation data saved successfully'', 200)"
    and "files (snd (save_data u now1 now2 (Json data) fs)) (EVAL_DATA_FILE u)
      = Some (rows @ [row])"
  using save_data_accepts [OF assms(1) initialize_csv_keeps_files [OF assms(2)] assms(3, 4)]
  by simp_all

lemma save_data_accepts_fresh:
  assumes "eval_csv_row now1 now2 data = Inr row"
  shows "fst (save_data u now1 now2 (Json data) empty_fs)
      = (MessageBody ''Evaluation data saved successfully'', 200)"
    and "files (snd (save_data u now1 now2 (Json data) empty_fs)) (EVAL_DATA_FILE u)
      = Some [map JString EVAL_CSV_HEADER, row]"
proof -
  have "files (initialize_csv (EVAL_DATA_FILE u) EVAL_CSV_HEADER empty_fs) (EVAL_DATA_FILE u)
      = Some [map JString EVAL_CSV_HEADER]"
    by (simp add: initialize_csv_empty_fs)
  from save_data_accepts [OF assms this]
  show "fst (save_data u now1 now2 (Json data) empty_fs)
      = (MessageBody ''Evaluation data saved successfully'', 200)"
    and "files (snd (save_data u now1 now2 (Json data) empty_fs)) (EVAL_DATA_FILE u)
      = Some [map JString EVAL_CSV_HEADER, row]"
    by (simp_all add: empty_fs_def)
qed

lemma save_suggestion_accepts_file:
  assumes "suggestion_csv_row now data = Inr row" "files fs (SUGGESTIONS_FILE u) = Some rows"
    "append_fails fs (SUGGESTIONS_FILE u) = None" "print_fails fs (row ! 1) = None"
  shows "fst (save_suggestion u now (Json data) fs)
      = (MessageBody ''Suggestion saved successfully'', 200)"
    and "files (snd (save_suggestion u now (Json data) fs)) (SUGGESTIONS_FILE u)
      = Some (rows @ [row])"
  using save_suggestion_accepts [OF assms(1) initialize_csv_keeps_files [OF assms(2)] assms(3, 4)]
  by simp_all

lemma save_suggestion_accepts_fresh:
  assumes "suggestion_csv_row now data = Inr row"
  shows "fst (save_suggestion u now (Json data) empty_fs)
      = (MessageBody ''Suggestion saved successfully'', 200)"
    and "files (snd (save_suggestion u now (Json data) empty_fs)) (SUGGESTIONS_FILE u)
      = Some [map JString SUGGESTIONS_HEADER, row]"
proof -
  have "files (initialize_csv (SUGGESTIONS_FILE u) SUGGESTIONS_HEADER empty_fs)
      (SUGGESTIONS_FILE u) = Some [map JString SUGGESTIONS_HEADER]"
    by (simp add: initialize_csv_empty_fs)
  from save_suggestion_accepts [OF assms this]
  show "fst (save_suggestion u now (Json data) empty_fs)
      = (MessageBody ''Suggestion saved successfully'', 200)"
    and "files (snd (save_suggestion u now (Json data) empty_fs)) (SUGGESTIONS_FILE u)
      = Some [map JString SUGGESTIONS_HEADER, row]"
    by (simp_all add: empty_fs_def)
qed

lemma run_save_data_Cons:
  "run_save_data u ((now1, now2, req) # subs) fs
     = (fst (save_data u now1 now2 req fs)
          # fst (run_save_data u subs (snd (save_data u now1 now2 req fs))),
        snd (run_save_data u subs (snd (save_data u now1 now2 req fs))))"
  by (simp add: case_prod_unfold Let_def)

lemma run_save_suggestion_Cons:
  "run_save_suggestion u ((now, req) # subs) fs
     = (fst (save_suggestion u now req fs)
          # fst (run_save_suggestion u subs (snd (save_suggestion u now req fs))),
        snd (run_save_suggestion u subs (snd (save_suggestion u now req fs))))"
  by (simp add: case_prod_unfold Let_def)

lemma eval_csv_row_empty: "eval_csv_row now1 now2 (JObject []) = Inr (eval_cells now1 now2 [] [])"
  by (simp add: eval_csv_row_object lookup_def)

lemma eval_csv_row_aspirin:
  "eval_csv_row now1 now2 aspirin_payload
     = Inr (eval_cells now1 now2 [(''knownMedications'', aspirin)] [])"
  by (simp add: eval_csv_row_object lookup_def aspirin_payload_def)

lemma suggestion_csv_row_example:
  "suggestion_csv_row now suggestion_payload
     = Inr [JString (isoformat now), JString ''Aspirin'', JString ''add it'', JNull]"
  by (simp add: suggestion_csv_row_object suggestion_payload_def lookup_def falsy_def
      suggestion_cells_def)


lemma full_disk_fs_simps [simp]:
  "files (full_disk_fs u) = files (ready_fs u)"
  "dirs (full_disk_fs u) = dirs (ready_fs u)"
  "append_fails (full_disk_fs u) p = Some (WriteFault OSError [])"
  "print_fails (full_disk_fs u) v = None"
  by (simp_all add: full_disk_fs_def)

lemma initialize_csv_full_disk_fs [simp]:
  "initialize_csv (EVAL_DATA_FILE u) h (full_disk_fs u) = full_disk_fs u"
  "initialize_csv (SUGGESTIONS_FILE u) h (full_disk_fs u) = full_disk_fs u"
  by (rule initialize_csv_ready; simp)+

lemma locked_dir_fs_simps [simp]:
  "files (locked_dir_fs u) = files (ready_fs u)"
  "dirs (locked_dir_fs u) = dirs (ready_fs u)"
  "append_fails (locked_dir_fs u) p = None"
  "makedirs_fails (locked_dir_fs u) p"
  "print_fails (locked_dir_fs u) v = None"
  by (simp_all add: locked_dir_fs_def ready_fs_def)


lemma no_home_fs_simps [simp]:
  "files no_home_fs p = None" "dirs no_home_fs = {}" "makedirs_fails no_home_fs p"
  "append_fails no_home_fs p = None" "print_fails no_home_fs v = None"
  by (simp_all add: no_home_fs_def empty_fs_def)

lemma ascii_stdout_fs_simps [simp]:
  "files (ascii_stdout_fs u) = files (ready_fs u)"
  "dirs (ascii_stdout_fs u) = dirs (ready_fs u)"
  "append_fails (ascii_stdout_fs u) p = None"
  "print_fails (ascii_stdout_fs u) = ascii_only"
  by (simp_all add: ascii_stdout_fs_def ready_fs_def)

lemma initialize_csv_ascii_stdout_fs [simp]:
  "initialize_csv (EVAL_DATA_FILE u) h (ascii_stdout_fs u) = ascii_stdout_fs u"
  "initialize_csv (SUGGESTIONS_FILE u) h (ascii_stdout_fs u) = ascii_stdout_fs u"
  by (rule initialize_csv_ready; simp)+

lemma torn_write_fs_simps [simp]:
  "files (torn_write_fs u) = files (ready_fs u)"
  "dirs (torn_write_fs u) = dirs (ready_fs u)"
  "append_fails (torn_write_fs u) p = Some (WriteFault OSError [[JString ''MISS'']])"
  "print_fails (torn_write_fs u) v = None"
  by (simp_all add: torn_write_fs_def ready_fs_def)

lemma initialize_csv_torn_write_fs [simp]:
  "initialize_csv (EVAL_DATA_FILE u) h (torn_write_fs u) = torn_write_fs u"
  "initialize_csv (SUGGESTIONS_FILE u) h (torn_write_fs u) = torn_write_fs u"
  by (rule initialize_csv_ready; simp)+

lemma dir_at_store_fs_simps [simp]:
  "files (dir_at_store_fs u) p = None"
  "dirs (dir_at_store_fs u) = {DATA_DIR u, EVAL_DATA_FILE u, SUGGESTIONS_FILE u}"
  by (simp_all add: dir_at_store_fs_def empty_fs_def)

lemma initialize_csv_dir_at_store_fs [simp]:
  "initialize_csv (EVAL_DATA_FILE u) h (dir_at_store_fs u) = dir_at_store_fs u"
  "initialize_csv (SUGGESTIONS_FILE u) h (dir_at_store_fs u) = dir_at_store_fs u"
  by (simp_all add: initialize_csv_defs dir_at_store_fs_def empty_fs_def insert_absorb)

lemma ascii_only_simps [simp]:
  "ascii_only (JString [CHR ''R'', CHR 0xE9]) = Some UnicodeEncodeError"
  "ascii_only (JString (''MISSING_ID_'' @ isoformat noon)) = None"
  by (simp_all add: ascii_only_def isoformat_noon)



lemma eval_cells_first [simp]:
  "eval_cells now1 now2 kvs rs ! 0
     = lookup kvs ''researchId'' (JString (''MISSING_ID_'' @ isoformat now1))"
  by (simp add: eval_cells_def)

lemma suggestion_cells_second [simp]:
  "suggestion_cells now kvs ! 1 = lookup kvs ''medicationName'' JNull"
  "suggestion_cells now kvs ! Suc 0 = lookup kvs ''medicationName'' JNull"
  by (simp_all add: suggestion_cells_def)
section \<open>The row of an accepted submission\<close>

lemma save_data_accepted_object:
  assumes "save_data u now1 now2 (Json (JObject kvs)) fs = ((b, 200), fs')"
  shows "\<exists>rows rs. lookup kvs ''results'' (JObject []) = JObject rs
    \<and> files fs' (EVAL_DATA_FILE u) = Some (rows @ [eval_cells now1 now2 kvs rs])"
proof -
  from save_data_accepted [OF assms] obtain row rows where
    row: "eval_csv_row now1 now2 (JObject kvs) = Inr row"
    and fs': "files fs' (EVAL_DATA_FILE u) = Some (rows @ [row])"
    by auto
  from row obtain rs where "lookup kvs ''results'' (JObject []) = JObject rs"
    "row = eval_cells now1 now2 kvs rs"
    by (cases "lookup kvs ''results'' (JObject [])") (simp_all add: eval_csv_row_object)
  with fs' show ?thesis by blast
qed

lemma save_suggestion_accepted_object:
  assumes "save_suggestion u now (Json (JObject kvs)) fs = ((b, 200), fs')"
  shows "\<exists>rows. \<not> falsy (lookup kvs ''medicationName'' JNull)
    \<and> \<not> falsy (lookup kvs ''details'' JNull)
    \<and> files fs' (SUGGESTIONS_FILE u) = Some (rows @ [suggestion_cells now kvs])"
proof -
  from save_suggestion_accepted [OF assms] obtain row rows where
    row: "suggestion_csv_row now (JObject kvs) = Inr row"
    and fs': "files fs' (SUGGESTIONS_FILE u) = Some (rows @ [row])"
    by auto
  from row have "\<not> falsy (lookup kvs ''medicationName'' JNull)"
    "\<not> falsy (lookup kvs ''details'' JNull)" "row = suggestion_cells now kvs"
    by (simp_all add: suggestion_csv_row_object split: if_splits)
  with fs' show ?thesis by blast
qed

lemma eval_columns:
  "csv_column EVAL_CSV_HEADER (eval_cells now1 now2 kvs rs) ''researchId''
     = Some (lookup kvs ''researchId'' (JString (''MISSING_ID_'' @ isoformat now1)))"
  "csv_column EVAL_CSV_HEADER (eval_cells now1 now2 kvs rs) ''timestamp''
     = Some (lookup kvs ''timestamp'' (JString (isoformat now2)))"
  "csv_column EVAL_CSV_HEADER (eval_cells now1 now2 kvs rs) ''knownMedicationsJson''
     = Some (JString (json_dumps (lookup kvs ''knownMedications'' (JArray []))))"
  "csv_column EVAL_CSV_HEADER (eval_cells now1 now2 kvs rs) ''otherMedicationsJson''
     = Some (JString (json_dumps (lookup kvs ''otherMedications'' (JArray []))))"
  by (simp_all add: csv_column_def EVAL_CSV_HEADER_def eval_cells_def)

section \<open>Bodies that are not objects\<close>








section \<open>The claims\<close>

text \<open>
  C1. A sequence of accepted submissions of one kind, started where the kind's store file
  does not exist, leaves the store file holding the header row followed by one row per
  submission, in the order of the submissions (\<open>list_all2\<close> pairs the \<open>i\<close>-th
  submission with the \<open>i\<close>-th row). With no submission at all the file is still absent:
  the store is created by the first request. Whatever requests are handled, accepted or
  not, every file keeps the rows it had, the header row included, as a prefix of its
  content: no row is rewritten, changed or removed.
\<close>

theorem store_is_header_then_rows:
  "(files fs (EVAL_DATA_FILE u) = None \<longrightarrow> run_save_data u subs fs = (resps, fs') \<longrightarrow>
      (\<forall>r \<in> set resps. snd r = 200) \<longrightarrow>
      (if subs = [] then files fs' (EVAL_DATA_FILE u) = None
       else \<exists>rows. files fs' (EVAL_DATA_FILE u) = Some (map JString EVAL_CSV_HEADER # rows)
              \<and> length rows = length subs \<and> list_all2 eval_row_of subs rows))
   \<and> (files fs (SUGGESTIONS_FILE u) = None \<longrightarrow> run_save_suggestion u ssubs fs = (sresps, sfs') \<longrightarrow>
      (\<forall>r \<in> set sresps. snd r = 200) \<longrightarrow>
      (if ssubs = [] then files sfs' (SUGGESTIONS_FILE u) = None
       else \<exists>rows. files sfs' (SUGGESTIONS_FILE u) = Some (map JString SUGGESTIONS_HEADER # rows)
              \<and> length rows = length ssubs \<and> list_all2 suggestion_row_of ssubs rows))
   \<and> (\<forall>q old. files fs q = Some old \<longrightarrow>
        (\<exists>new. files (snd (run_save_data u subs fs)) q = Some (old @ new))
        \<and> (\<exists>new. files (snd (run_save_suggestion u ssubs fs)) q = Some (old @ new)))"
proof (intro conjI allI impI)
  assume "files fs (EVAL_DATA_FILE u) = None" "run_save_data u subs fs = (resps, fs')"
    "\<forall>r \<in> set resps. snd r = 200"
  from run_save_data_fresh [OF this]
  show "if subs = [] then files fs' (EVAL_DATA_FILE u) = None
       else \<exists>rows. files fs' (EVAL_DATA_FILE u) = Some (map JString EVAL_CSV_HEADER # rows)
              \<and> length rows = length subs \<and> list_all2 eval_row_of subs rows"
    by simp
next
  assume "files fs (SUGGESTIONS_FILE u) = None" "run_save_suggestion u ssubs fs = (sresps, sfs')"
    "\<forall>r \<in> set sresps. snd r = 200"
  from run_save_suggestion_fresh [OF this]
  show "if ssubs = [] then files sfs' (SUGGESTIONS_FILE u) = None
       else \<exists>rows. files sfs' (SUGGESTIONS_FILE u) = Some (map JString SUGGESTIONS_HEADER # rows)
              \<and> length rows = length ssubs \<and> list_all2 suggestion_row_of ssubs rows"
    by simp
next
  fix q old assume "files fs q = Some old"
  then show "\<exists>new. files (snd (run_save_data u subs fs)) q = Some (old @ new)"
    by (rule run_save_data_extends)
next
  fix q old assume "files fs q = Some old"
  then show "\<exists>new. files (snd (run_save_suggestion u ssubs fs)) q = Some (old @ new)"
    by (rule run_save_suggestion_extends)
qed

theorem store_is_header_then_rows_witness:
  "files empty_fs (EVAL_DATA_FILE ''ayush'') = None
   \<and> fst (run_save_data ''ayush'' two_evaluations empty_fs)
       = [(MessageBody ''Evaluation data saved successfully'', 200),
          (MessageBody ''Evaluation data saved successfully'', 200)]
   \<and> files (snd (run_save_data ''ayush'' two_evaluations empty_fs)) (EVAL_DATA_FILE ''ayush'')
       = Some [map JString EVAL_CSV_HEADER,
               eval_cells noon noon [] [],
               eval_cells later later [(''knownMedications'', aspirin)] []]
   \<and> files empty_fs (SUGGESTIONS_FILE ''ayush'') = None
   \<and> fst (run_save_suggestion ''ayush'' one_suggestion empty_fs)
       = [(MessageBody ''Suggestion saved successfully'', 200)]
   \<and> files (snd (run_save_suggestion ''ayush'' one_suggestion empty_fs))
        (SUGGESTIONS_FILE ''ayush'')
       = Some [map JString SUGGESTIONS_HEADER,
               [JString ''2025-03-14T12:00:00'', JString ''Aspirin'', JString ''add it'', JNull]]
   \<and> files (ready_fs ''ayush'') (EVAL_DATA_FILE ''ayush'') = Some [map JString EVAL_CSV_HEADER]
   \<and> (\<exists>new. files (snd (run_save_data ''ayush'' two_evaluations (ready_fs ''ayush'')))
               (EVAL_DATA_FILE ''ayush'') = Some ([map JString EVAL_CSV_HEADER] @ new))
   \<and> (\<exists>new. files (snd (run_save_suggestion ''ayush'' one_suggestion (ready_fs ''ayush'')))
               (EVAL_DATA_FILE ''ayush'') = Some ([map JString EVAL_CSV_HEADER] @ new))"
proof -
  let ?u = "''ayush''"
  let ?e = "run_save_data ?u two_evaluations empty_fs"
  let ?s = "run_save_suggestion ?u one_suggestion empty_fs"
  note claim = store_is_header_then_rows [of empty_fs ?u two_evaluations "fst ?e" "snd ?e"
      one_suggestion "fst ?s" "snd ?s"]
  have fresh: "files empty_fs (EVAL_DATA_FILE ?u) = None" "files empty_fs (SUGGESTIONS_FILE ?u) = None"
    by (simp_all add: empty_fs_def)
  let ?fs1 = "snd (save_data ?u noon noon (Json (JObject [])) empty_fs)"
  have a1: "fst (save_data ?u noon noon (Json (JObject [])) empty_fs)
      = (MessageBody ''Evaluation data saved successfully'', 200)"
    by (rule save_data_accepts_fresh(1) [OF eval_csv_row_empty])
  have f1: "files ?fs1 (EVAL_DATA_FILE ?u)
      = Some [map JString EVAL_CSV_HEADER, eval_cells noon noon [] []]"
    by (rule save_data_accepts_fresh(2) [OF eval_csv_row_empty])
  have o1: "append_fails ?fs1 (EVAL_DATA_FILE ?u) = None"
    by (simp add: empty_fs_def)
  have a2: "fst (save_data ?u later later (Json aspirin_payload) ?fs1)
      = (MessageBody ''Evaluation data saved successfully'', 200)"
    by (rule save_data_accepts_file(1) [OF eval_csv_row_aspirin f1 o1]) (simp add: empty_fs_def)
  have e: "fst ?e = [(MessageBody ''Evaluation data saved successfully'', 200),
      (MessageBody ''Evaluation data saved successfully'', 200)]"
    by (simp add: two_evaluations_def case_prod_unfold Let_def a1 a2)
  have s: "fst ?s = [(MessageBody ''Suggestion saved successfully'', 200)]"
    by (simp add: one_suggestion_def case_prod_unfold Let_def
        save_suggestion_accepts_fresh(1) [OF suggestion_csv_row_example])
  from claim fresh(1) e obtain rows where
    stored: "files (snd ?e) (EVAL_DATA_FILE ?u) = Some (map JString EVAL_CSV_HEADER # rows)"
    and rows: "list_all2 eval_row_of two_evaluations rows"
    by (auto simp: two_evaluations_def)
  from rows have "rows = [eval_cells noon noon [] [],
      eval_cells later later [(''knownMedications'', aspirin)] []]"
    by (auto simp: two_evaluations_def list_all2_Cons1 eval_row_of_def eval_csv_row_empty
        eval_csv_row_aspirin)
  with stored have ef: "files (snd ?e) (EVAL_DATA_FILE ?u)
      = Some [map JString EVAL_CSV_HEADER, eval_cells noon noon [] [],
              eval_cells later later [(''knownMedications'', aspirin)] []]"
    by simp
  from claim fresh(2) s obtain srows where
    sstored: "files (snd ?s) (SUGGESTIONS_FILE ?u) = Some (map JString SUGGESTIONS_HEADER # srows)"
    and srows: "list_all2 suggestion_row_of one_suggestion srows"
    by (auto simp: one_suggestion_def)
  from srows have "srows = [[JString ''2025-03-14T12:00:00'', JString ''Aspirin'',
      JString ''add it'', JNull]]"
    by (auto simp: one_suggestion_def list_all2_Cons1 suggestion_row_of_def
        suggestion_csv_row_example isoformat_noon)
  with sstored have sf: "files (snd ?s) (SUGGESTIONS_FILE ?u)
      = Some [map JString SUGGESTIONS_HEADER,
              [JString ''2025-03-14T12:00:00'', JString ''Aspirin'', JString ''add it'', JNull]]"
    by simp
  have kept: "files (ready_fs ?u) (EVAL_DATA_FILE ?u) = Some [map JString EVAL_CSV_HEADER]"
    by simp
  from store_is_header_then_rows [of "ready_fs ?u" ?u two_evaluations "[]" "ready_fs ?u"
      one_suggestion "[]" "ready_fs ?u"] kept
  have "\<exists>new. files (snd (run_save_data ?u two_evaluations (ready_fs ?u))) (EVAL_DATA_FILE ?u)
      = Some ([map JString EVAL_CSV_HEADER] @ new)"
    "\<exists>new. files (snd (run_save_suggestion ?u one_suggestion (ready_fs ?u))) (EVAL_DATA_FILE ?u)
      = Some ([map JString EVAL_CSV_HEADER] @ new)"
    by blast+
  with fresh e ef s sf kept show ?thesis by blast
qed




lemma is_sentinel_synthesized:
  "valid_datetime now \<Longrightarrow> is_sentinel (''MISSING_ID_'' @ isoformat now)"
  by (simp add: is_sentinel_def fromisoformat_isoformat)

lemma eval_csv_row_supplied_sentinel:
  "eval_csv_row noon noon (JObject [(''researchId'', JString ''MISSING_ID_2025-03-14T12:00:00'')])
     = Inr (eval_cells noon noon [] [])"
  by (simp add: eval_csv_row_object lookup_def eval_cells_def isoformat_noon)

text \<open>
  C4, as stated, fails in its last part: a synthesized research id cannot be told from the
  ids that callers supply. \<^verbatim>\<open>data.get('researchId', ...)\<close> stores a supplied id as it is,
  whatever its text. A caller who sends the id \<^verbatim>\<open>MISSING_ID_2025-03-14T12:00:00\<close> at noon
  of that day gets the answer, the row and the store file of a caller who sends no id at
  all, and the supplied id has the shape of a synthesized one.
\<close>

theorem sentinel_distinguishable_counterexample:
  "save_data ''ayush'' noon noon
       (Json (JObject [(''researchId'', JString ''MISSING_ID_2025-03-14T12:00:00'')])) empty_fs
     = save_data ''ayush'' noon noon (Json (JObject [])) empty_fs
   \<and> fst (save_data ''ayush'' noon noon (Json (JObject [])) empty_fs)
       = (MessageBody ''Evaluation data saved successfully'', 200)
   \<and> files (snd (save_data ''ayush'' noon noon (Json (JObject [])) empty_fs))
        (EVAL_DATA_FILE ''ayush'')
       = Some [map JString EVAL_CSV_HEADER, eval_cells noon noon [] []]
   \<and> csv_column EVAL_CSV_HEADER (eval_cells noon noon [] []) ''researchId''
       = Some (JString ''MISSING_ID_2025-03-14T12:00:00'')
   \<and> is_sentinel ''MISSING_ID_2025-03-14T12:00:00''"
proof -
  have same: "save_data ''ayush'' noon noon
       (Json (JObject [(''researchId'', JString ''MISSING_ID_2025-03-14T12:00:00'')])) empty_fs
     = save_data ''ayush'' noon noon (Json (JObject [])) empty_fs"
    by (simp add: save_data_Json eval_csv_row_supplied_sentinel eval_csv_row_empty)
  have column: "csv_column EVAL_CSV_HEADER (eval_cells noon noon [] []) ''researchId''
      = Some (JString ''MISSING_ID_2025-03-14T12:00:00'')"
    by (simp add: eval_columns lookup_def isoformat_noon)
  have shape: "is_sentinel ''MISSING_ID_2025-03-14T12:00:00''"
    using is_sentinel_synthesized [OF valid_noon] by (simp add: isoformat_noon)
  from same column shape show ?thesis
    by (simp add: save_data_accepts_fresh [OF eval_csv_row_empty])
qed

text \<open>
  C4, amended. When an accepted evaluation payload has neither \<^verbatim>\<open>researchId\<close> nor
  \<^verbatim>\<open>timestamp\<close>, the appended row has a text in both columns that is not empty. The
  timestamp column holds the second reading of the clock in ISO format, and it parses back
  to that reading. The research id column holds the marker \<^verbatim>\<open>MISSING_ID_\<close> followed by the
  first reading of the clock in ISO format: it has the shape of a synthesized id
  (\<open>is_sentinel\<close>), and the text after the marker parses back to the reading. That shape is
  all that marks a synthesized id: a research id that the payload supplies is stored
  unchanged, whatever its value.
\<close>

theorem defaults_for_id_and_timestamp:
  assumes "valid_datetime now1" and "valid_datetime now2"
    and "save_data u now1 now2 (Json (JObject kvs)) fs = ((b, 200), fs')"
  shows "(map_of kvs ''researchId'' = None \<longrightarrow> map_of kvs ''timestamp'' = None \<longrightarrow>
      (\<exists>rows row research_id timestamp.
         files fs' (EVAL_DATA_FILE u) = Some (rows @ [row])
         \<and> csv_column EVAL_CSV_HEADER row ''researchId'' = Some (JString research_id)
         \<and> csv_column EVAL_CSV_HEADER row ''timestamp'' = Some (JString timestamp)
         \<and> timestamp = isoformat now2 \<and> timestamp \<noteq> []
         \<and> fromisoformat timestamp = Some now2
         \<and> research_id = ''MISSING_ID_'' @ isoformat now1 \<and> research_id \<noteq> []
         \<and> is_sentinel research_id
         \<and> fromisoformat (drop 11 research_id) = Some now1))
    \<and> (\<forall>supplied. map_of kvs ''researchId'' = Some supplied \<longrightarrow>
          (\<exists>rows row. files fs' (EVAL_DATA_FILE u) = Some (rows @ [row])
             \<and> csv_column EVAL_CSV_HEADER row ''researchId'' = Some supplied))"
proof (intro conjI impI allI)
  from save_data_accepted_object [OF assms(3)] obtain rows rs where
    stored: "files fs' (EVAL_DATA_FILE u) = Some (rows @ [eval_cells now1 now2 kvs rs])"
    by blast
  {
    assume absent: "map_of kvs ''researchId'' = None" "map_of kvs ''timestamp'' = None"
    then have "csv_column EVAL_CSV_HEADER (eval_cells now1 now2 kvs rs) ''researchId''
        = Some (JString (''MISSING_ID_'' @ isoformat now1))"
      "csv_column EVAL_CSV_HEADER (eval_cells now1 now2 kvs rs) ''timestamp''
        = Some (JString (isoformat now2))"
      by (simp_all add: eval_columns lookup_def)
    moreover have "is_sentinel (''MISSING_ID_'' @ isoformat now1)"
      using assms(1) by (rule is_sentinel_synthesized)
    ultimately show "\<exists>rows row research_id timestamp.
         files fs' (EVAL_DATA_FILE u) = Some (rows @ [row])
         \<and> csv_column EVAL_CSV_HEADER row ''researchId'' = Some (JString research_id)
         \<and> csv_column EVAL_CSV_HEADER row ''timestamp'' = Some (JString timestamp)
         \<and> timestamp = isoformat now2 \<and> timestamp \<noteq> []
         \<and> fromisoformat timestamp = Some now2
         \<and> research_id = ''MISSING_ID_'' @ isoformat now1 \<and> research_id \<noteq> []
         \<and> is_sentinel research_id
         \<and> fromisoformat (drop 11 research_id) = Some now1"
      using stored assms(1,2)
      by (rule_tac x = rows in exI, rule_tac x = "eval_cells now1 now2 kvs rs" in exI,
          rule_tac x = "''MISSING_ID_'' @ isoformat now1" in exI,
          rule_tac x = "isoformat now2" in exI)
        (simp add: isoformat_nonempty fromisoformat_isoformat)
  }
  {
    fix supplied
    assume "map_of kvs ''researchId'' = Some supplied"
    then have "csv_column EVAL_CSV_HEADER (eval_cells now1 now2 kvs rs) ''researchId''
        = Some supplied"
      by (simp add: eval_columns lookup_def)
    with stored show "\<exists>rows row. files fs' (EVAL_DATA_FILE u) = Some (rows @ [row])
        \<and> csv_column EVAL_CSV_HEADER row ''researchId'' = Some supplied"
      by blast
  }
qed

theorem defaults_for_id_and_timestamp_witness:
  "map_of [(''age'', JInt 81)] ''researchId'' = None
   \<and> map_of [(''age'', JInt 81)] ''timestamp'' = None
   \<and> valid_datetime noon \<and> valid_datetime later
   \<and> fst (save_data ''ayush'' noon later (Json (JObject [(''age'', JInt 81)])) empty_fs)
       = (MessageBody ''Evaluation data saved successfully'', 200)
   \<and> (\<exists>rows row.
        files (snd (save_data ''ayush'' noon later (Json (JObject [(''age'', JInt 81)])) empty_fs))
          (EVAL_DATA_FILE ''ayush'') = Some (rows @ [row])
        \<and> csv_column EVAL_CSV_HEADER row ''researchId''
            = Some (JString ''MISSING_ID_2025-03-14T12:00:00'')
        \<and> csv_column EVAL_CSV_HEADER row ''timestamp''
            = Some (JString ''2025-03-14T12:00:07.250000'')
        \<and> fromisoformat ''2025-03-14T12:00:07.250000'' = Some later
        \<and> is_sentinel ''MISSING_ID_2025-03-14T12:00:00'')
   \<and> map_of [(''researchId'', JString ''R-17'')] ''researchId'' = Some (JString ''R-17'')
   \<and> fst (save_data ''ayush'' noon later (Json (JObject [(''researchId'', JString ''R-17'')]))
            empty_fs)
       = (MessageBody ''Evaluation data saved successfully'', 200)
   \<and> (\<exists>rows row.
        files (snd (save_data ''ayush'' noon later
                 (Json (JObject [(''researchId'', JString ''R-17'')])) empty_fs))
          (EVAL_DATA_FILE ''ayush'') = Some (rows @ [row])
        \<and> csv_column EVAL_CSV_HEADER row ''researchId'' = Some (JString ''R-17''))"
proof -
  let ?kvs = "[(''age'', JInt 81)]"
  let ?run = "save_data ''ayush'' noon later (Json (JObject ?kvs)) empty_fs"
  have absent: "map_of ?kvs ''researchId'' = None" "map_of ?kvs ''timestamp'' = None"
    by simp_all
  have row: "eval_csv_row noon later (JObject ?kvs) = Inr (eval_cells noon later ?kvs [])"
    by (simp add: eval_csv_row_object lookup_def)
  have accepted: "fst ?run = (MessageBody ''Evaluation data saved successfully'', 200)"
    by (rule save_data_accepts_fresh(1) [OF row])
  then have "?run = ((MessageBody ''Evaluation data saved successfully'', 200), snd ?run)"
    by (simp add: prod_eq_iff)
  from defaults_for_id_and_timestamp [OF valid_noon valid_later this] absent
  obtain rows row where synthesized:
    "files (snd ?run) (EVAL_DATA_FILE ''ayush'') = Some (rows @ [row])"
    "csv_column EVAL_CSV_HEADER row ''researchId''
       = Some (JString ''MISSING_ID_2025-03-14T12:00:00'')"
    "csv_column EVAL_CSV_HEADER row ''timestamp'' = Some (JString ''2025-03-14T12:00:07.250000'')"
    "fromisoformat ''2025-03-14T12:00:07.250000'' = Some later"
    "is_sentinel ''MISSING_ID_2025-03-14T12:00:00''"
    by (auto simp: isoformat_noon isoformat_later)
  let ?skvs = "[(''researchId'', JString ''R-17'')]"
  let ?srun = "save_data ''ayush'' noon later (Json (JObject ?skvs)) empty_fs"
  have present: "map_of ?skvs ''researchId'' = Some (JString ''R-17'')"
    by simp
  have srow: "eval_csv_row noon later (JObject ?skvs) = Inr (eval_cells noon later ?skvs [])"
    by (simp add: eval_csv_row_object lookup_def)
  have saccepted: "fst ?srun = (MessageBody ''Evaluation data saved successfully'', 200)"
    by (rule save_data_accepts_fresh(1) [OF srow])
  then have "?srun = ((MessageBody ''Evaluation data saved successfully'', 200), snd ?srun)"
    by (simp add: prod_eq_iff)
  from defaults_for_id_and_timestamp [OF valid_noon valid_later this] present
  obtain srows srow' where supplied:
    "files (snd ?srun) (EVAL_DATA_FILE ''ayush'') = Some (srows @ [srow'])"
    "csv_column EVAL_CSV_HEADER srow' ''researchId'' = Some (JString ''R-17'')"
    by blast
  from absent valid_noon valid_later accepted synthesized present saccepted supplied
  show ?thesis by blast
qed
text \<open>
  C5. \<^verbatim>\<open>initialize_csv\<close> is idempotent. A second call changes nothing at all. When
  nothing was at the path and the first call created the file, the file holds the header
  row and no other row after the second call. No call deletes a directory, and no call
  deletes, truncates or rewrites a file that exists: every existing file, the store's own
  included, keeps its rows.
\<close>

theorem initialize_csv_idempotent:
  "initialize_csv p h (initialize_csv p h fs) = initialize_csv p h fs
   \<and> (files fs p = None \<longrightarrow> files (initialize_csv p h fs) p \<noteq> None \<longrightarrow>
        files (initialize_csv p h (initialize_csv p h fs)) p = Some [map JString h])
   \<and> (\<forall>q rows. files fs q = Some rows \<longrightarrow> files (initialize_csv p h fs) q = Some rows)
   \<and> dirs fs \<subseteq> dirs (initialize_csv p h fs)"
proof (intro conjI allI impI)
  show "initialize_csv p h (initialize_csv p h fs) = initialize_csv p h fs"
    by (rule initialize_csv_again)
next
  assume "files fs p = None" and "files (initialize_csv p h fs) p \<noteq> None"
  with initialize_csv_files [of p h fs]
  have "files (initialize_csv p h fs) p = Some [map JString h]" by auto
  then show "files (initialize_csv p h (initialize_csv p h fs)) p = Some [map JString h]"
    by (simp add: initialize_csv_again)
next
  fix q rows assume "files fs q = Some rows"
  then show "files (initialize_csv p h fs) q = Some rows"
    by (rule initialize_csv_keeps_files)
next
  show "dirs fs \<subseteq> dirs (initialize_csv p h fs)"
    by (rule initialize_csv_keeps_dirs)
qed

theorem initialize_csv_idempotent_witness:
  "files empty_fs (SUGGESTIONS_FILE ''ayush'') = None
   \<and> files (initialize_csv (SUGGESTIONS_FILE ''ayush'') SUGGESTIONS_HEADER empty_fs)
        (SUGGESTIONS_FILE ''ayush'') \<noteq> None
   \<and> files (initialize_csv (SUGGESTIONS_FILE ''ayush'') SUGGESTIONS_HEADER
        (initialize_csv (SUGGESTIONS_FILE ''ayush'') SUGGESTIONS_HEADER empty_fs))
        (SUGGESTIONS_FILE ''ayush'')
      = Some [[JString ''timestamp'', JString ''medicationName'', JString ''details'',
               JString ''email'']]"
proof -
  have fresh: "files empty_fs (SUGGESTIONS_FILE ''ayush'') = None"
    by (simp add: empty_fs_def)
  have made: "files (initialize_csv (SUGGESTIONS_FILE ''ayush'') SUGGESTIONS_HEADER empty_fs)
      (SUGGESTIONS_FILE ''ayush'') \<noteq> None"
    by (subst initialize_csv_creates) (simp_all add: empty_fs_def path_exists_def)
  from initialize_csv_idempotent [of "SUGGESTIONS_FILE ''ayush''" SUGGESTIONS_HEADER empty_fs]
    fresh made
  have "files (initialize_csv (SUGGESTIONS_FILE ''ayush'') SUGGESTIONS_HEADER
        (initialize_csv (SUGGESTIONS_FILE ''ayush'') SUGGESTIONS_HEADER empty_fs))
        (SUGGESTIONS_FILE ''ayush'') = Some [map JString SUGGESTIONS_HEADER]"
    by blast
  moreover have "map JString SUGGESTIONS_HEADER
      = [JString ''timestamp'', JString ''medicationName'', JString ''details'',
         JString ''email'']"
    by (simp add: SUGGESTIONS_HEADER_def)
  ultimately show ?thesis using fresh made by simp
qed






text \<open>
  C8. An accepted suggestion without \<^verbatim>\<open>email\<close> and an accepted evaluation without \<^verbatim>\<open>age\<close>
  append a row with as many cells as the header has columns. Pairing the header with the
  row gives every column its own value, in the order of the header, and the column of the
  missing field holds \<^verbatim>\<open>None\<close> (\<open>JNull\<close>), which the \<^verbatim>\<open>csv\<close> writer prints as the empty field.
\<close>

theorem rows_have_every_column:
  "(save_suggestion u now (Json (JObject skvs)) sfs = ((sb, 200), sfs') \<longrightarrow>
      map_of skvs ''email'' = None \<longrightarrow>
      (\<exists>rows row. files sfs' (SUGGESTIONS_FILE u) = Some (rows @ [row])
         \<and> length row = length SUGGESTIONS_HEADER
         \<and> zip SUGGESTIONS_HEADER row =
             [(''timestamp'', lookup skvs ''timestamp'' (JString (isoformat now))),
              (''medicationName'', lookup skvs ''medicationName'' JNull),
              (''details'', lookup skvs ''details'' JNull),
              (''email'', JNull)]))
   \<and> (save_data u now1 now2 (Json (JObject kvs)) fs = ((b, 200), fs') \<longrightarrow>
      map_of kvs ''age'' = None \<longrightarrow>
      (\<exists>rows row rs. files fs' (EVAL_DATA_FILE u) = Some (rows @ [row])
         \<and> lookup kvs ''results'' (JObject []) = JObject rs
         \<and> length row = length EVAL_CSV_HEADER
         \<and> zip EVAL_CSV_HEADER row =
             [(''researchId'',
                 lookup kvs ''researchId'' (JString (''MISSING_ID_'' @ isoformat now1))),
              (''timestamp'', lookup kvs ''timestamp'' (JString (isoformat now2))),
              (''age'', JNull),
              (''sex'', lookup kvs ''sex'' JNull),
              (''renalInputMethod'', lookup kvs ''renalInputMethod'' JNull),
              (''serumCreatinine'', lookup kvs ''serumCreatinine'' JNull),
              (''eGFR'', lookup kvs ''eGFR'' JNull),
              (''renalStatus'', lookup kvs ''renalStatus'' JNull),
              (''fallsHistory'', lookup kvs ''fallsHistory'' JNull),
              (''knownMedicationsJson'',
                 JString (json_dumps (lookup kvs ''knownMedications'' (JArray [])))),
              (''otherMedicationsJson'',
                 JString (json_dumps (lookup kvs ''otherMedications'' (JArray [])))),
              (''totalACB'', lookup rs ''totalACB'' JNull),
              (''beersAlertsCount'', lookup rs ''beersAlerts'' JNull),
              (''stoppAlertsCount'', lookup rs ''stoppAlerts'' JNull)]))"
proof (intro conjI impI)
  assume "save_suggestion u now (Json (JObject skvs)) sfs = ((sb, 200), sfs')"
    and email: "map_of skvs ''email'' = None"
  from save_suggestion_accepted_object [OF this(1)] obtain rows where
    "files sfs' (SUGGESTIONS_FILE u) = Some (rows @ [suggestion_cells now skvs])"
    by blast
  then show "\<exists>rows row. files sfs' (SUGGESTIONS_FILE u) = Some (rows @ [row])
         \<and> length row = length SUGGESTIONS_HEADER
         \<and> zip SUGGESTIONS_HEADER row =
             [(''timestamp'', lookup skvs ''timestamp'' (JString (isoformat now))),
              (''medicationName'', lookup skvs ''medicationName'' JNull),
              (''details'', lookup skvs ''details'' JNull),
              (''email'', JNull)]"
    using email
    by (rule_tac x = rows in exI, rule_tac x = "suggestion_cells now skvs" in exI)
      (simp add: suggestion_cells_def SUGGESTIONS_HEADER_def lookup_def [of skvs "''email''"])
next
  assume "save_data u now1 now2 (Json (JObject kvs)) fs = ((b, 200), fs')"
    and age: "map_of kvs ''age'' = None"
  from save_data_accepted_object [OF this(1)] obtain rows rs where
    "lookup kvs ''results'' (JObject []) = JObject rs"
    "files fs' (EVAL_DATA_FILE u) = Some (rows @ [eval_cells now1 now2 kvs rs])"
    by blast
  then show "\<exists>rows row rs. files fs' (EVAL_DATA_FILE u) = Some (rows @ [row])
         \<and> lookup kvs ''results'' (JObject []) = JObject rs
         \<and> length row = length EVAL_CSV_HEADER
         \<and> zip EVAL_CSV_HEADER row =
             [(''researchId'',
                 lookup kvs ''researchId'' (JString (''MISSING_ID_'' @ isoformat now1))),
              (''timestamp'', lookup kvs ''timestamp'' (JString (isoformat now2))),
              (''age'', JNull),
              (''sex'', lookup kvs ''sex'' JNull),
              (''renalInputMethod'', lookup kvs ''renalInputMethod'' JNull),
              (''serumCreatinine'', lookup kvs ''serumCreatinine'' JNull),
              (''eGFR'', lookup kvs ''eGFR'' JNull),
              (''renalStatus'', lookup kvs ''renalStatus'' JNull),
              (''fallsHistory'', lookup kvs ''fallsHistory'' JNull),
              (''knownMedicationsJson'',
                 JString (json_dumps (lookup kvs ''knownMedications'' (JArray [])))),
              (''otherMedicationsJson'',
                 JString (json_dumps (lookup kvs ''otherMedications'' (JArray [])))),
              (''totalACB'', lookup rs ''totalACB'' JNull),
              (''beersAlertsCount'', lookup rs ''beersAlerts'' JNull),
              (''stoppAlertsCount'', lookup rs ''stoppAlerts'' JNull)]"
    using age
    by (rule_tac x = rows in exI, rule_tac x = "eval_cells now1 now2 kvs rs" in exI,
        rule_tac x = rs in exI)
      (simp add: eval_cells_def EVAL_CSV_HEADER_def lookup_def [of kvs "''age''"])
qed

theorem rows_have_every_column_witness:
  "fst (save_suggestion ''ayush'' noon (Json suggestion_payload) empty_fs)
     = (MessageBody ''Suggestion saved successfully'', 200)
   \<and> map_of [(''medicationName'', JString ''Aspirin''), (''details'', JString ''add it'')]
        ''email'' = None
   \<and> (\<exists>rows row.
        files (snd (save_suggestion ''ayush'' noon (Json suggestion_payload) empty_fs))
          (SUGGESTIONS_FILE ''ayush'') = Some (rows @ [row])
        \<and> zip SUGGESTIONS_HEADER row =
            [(''timestamp'', JString ''2025-03-14T12:00:00''),
             (''medicationName'', JString ''Aspirin''),
             (''details'', JString ''add it''),
             (''email'', JNull)])
   \<and> fst (save_data ''ayush'' noon later (Json aspirin_payload) empty_fs)
     = (MessageBody ''Evaluation data saved successfully'', 200)
   \<and> map_of [(''knownMedications'', aspirin)] ''age'' = None
   \<and> (\<exists>rows row.
        files (snd (save_data ''ayush'' noon later (Json aspirin_payload) empty_fs))
          (EVAL_DATA_FILE ''ayush'') = Some (rows @ [row])
        \<and> length row = 14
        \<and> csv_column EVAL_CSV_HEADER row ''age'' = Some JNull
        \<and> csv_column EVAL_CSV_HEADER row ''timestamp''
            = Some (JString ''2025-03-14T12:00:07.250000''))"
proof -
  let ?skvs = "[(''medicationName'', JString ''Aspirin''), (''details'', JString ''add it'')]"
  let ?kvs = "[(''knownMedications'', aspirin)]"
  let ?s = "save_suggestion ''ayush'' noon (Json suggestion_payload) empty_fs"
  let ?e = "save_data ''ayush'' noon later (Json aspirin_payload) empty_fs"
  note claim = rows_have_every_column [of "''ayush''" noon ?skvs empty_fs
      "MessageBody ''Suggestion saved successfully''" "snd ?s" noon later ?kvs empty_fs
      "MessageBody ''Evaluation data saved successfully''" "snd ?e"]
  have sa: "fst ?s = (MessageBody ''Suggestion saved successfully'', 200)"
    by (rule save_suggestion_accepts_fresh(1) [OF suggestion_csv_row_example])
  then have s: "save_suggestion ''ayush'' noon (Json (JObject ?skvs)) empty_fs
      = ((MessageBody ''Suggestion saved successfully'', 200), snd ?s)"
    by (simp add: suggestion_payload_def prod_eq_iff)
  have ea: "fst ?e = (MessageBody ''Evaluation data saved successfully'', 200)"
    by (rule save_data_accepts_fresh(1) [OF eval_csv_row_aspirin])
  then have e: "save_data ''ayush'' noon later (Json (JObject ?kvs)) empty_fs
      = ((MessageBody ''Evaluation data saved successfully'', 200), snd ?e)"
    by (simp add: aspirin_payload_def prod_eq_iff)
  have absent: "map_of ?skvs ''email'' = None" "map_of ?kvs ''age'' = None"
    by simp_all
  from claim s absent(1) obtain srows srow where
    "files (snd ?s) (SUGGESTIONS_FILE ''ayush'') = Some (srows @ [srow])"
    "zip SUGGESTIONS_HEADER srow =
       [(''timestamp'', JString ''2025-03-14T12:00:00''),
        (''medicationName'', JString ''Aspirin''),
        (''details'', JString ''add it''),
        (''email'', JNull)]"
    by (auto simp: lookup_def isoformat_noon)
  moreover from claim e absent(2) obtain rows row where
    "files (snd ?e) (EVAL_DATA_FILE ''ayush'') = Some (rows @ [row])"
    "length row = 14"
    "csv_column EVAL_CSV_HEADER row ''age'' = Some JNull"
    "csv_column EVAL_CSV_HEADER row ''timestamp'' = Some (JString ''2025-03-14T12:00:07.250000'')"
    by (auto simp: lookup_def isoformat_later csv_column_def EVAL_CSV_HEADER_def)
  ultimately show ?thesis using sa ea absent by blast
qed





end
